theory Spec2Isabelle
  imports Main "HOL-Library.Sublist"
begin

section \<open>JavaScript strings and the built-ins the facade calls\<close>

text \<open>
  A JavaScript string is a sequence of code units. It is modelled as \<open>string\<close>
  (a list of \<open>char\<close>), one \<open>char\<close> standing for one code unit below 256.
  The built-ins below are the ones \<^verbatim>\<open>index.ts\<close> calls on strings and arrays:
  \<^verbatim>\<open>trim\<close>, \<^verbatim>\<open>join\<close>, \<^verbatim>\<open>split\<close>, \<^verbatim>\<open>includes\<close>, \<^verbatim>\<open>replace\<close> (with a string pattern
  and with the global regular expression of one character) and \<^verbatim>\<open>Boolean\<close>.
\<close>

definition is_white_space :: "char \<Rightarrow> bool" where
  \<comment> \<open>ECMAScript WhiteSpace and LineTerminator code points below 256:
      TAB, LF, VT, FF, CR, SP, NBSP.\<close>
  "is_white_space c =
     (c = CHR 0x09 \<or> c = CHR 0x0A \<or> c = CHR 0x0B \<or> c = CHR 0x0C \<or>
      c = CHR 0x0D \<or> c = CHR 0x20 \<or> c = CHR 0xA0)"

definition trim :: "string \<Rightarrow> string" where
  \<comment> \<open>\<^verbatim>\<open>String.prototype.trim\<close>\<close>
  "trim s = rev (dropWhile is_white_space (rev (dropWhile is_white_space s)))"

fun join :: "string list \<Rightarrow> string \<Rightarrow> string" where
  \<comment> \<open>\<^verbatim>\<open>Array.prototype.join\<close> on an array of strings\<close>
  "join [] sep = []"
| "join [x] sep = x"
| "join (x # y # ys) sep = x @ sep @ join (y # ys) sep"

fun split_str :: "string \<Rightarrow> char \<Rightarrow> string list" where
  \<comment> \<open>\<^verbatim>\<open>String.prototype.split\<close> with a separator of one character\<close>
  "split_str [] sep = [[]]"
| "split_str (c # cs) sep =
     (if c = sep then [] # split_str cs sep
      else (case split_str cs sep of
              [] \<Rightarrow> [[c]]
            | l # ls \<Rightarrow> (c # l) # ls))"

fun includes_str :: "string \<Rightarrow> string \<Rightarrow> bool" where
  \<comment> \<open>\<^verbatim>\<open>String.prototype.includes\<close>\<close>
  "includes_str [] pat = (pat = [])"
| "includes_str (c # cs) pat = (prefix pat (c # cs) \<or> includes_str cs pat)"

fun replace :: "string \<Rightarrow> string \<Rightarrow> string \<Rightarrow> string" where
  \<comment> \<open>\<^verbatim>\<open>String.prototype.replace\<close> with a string pattern: the first occurrence only.
      The replacement texts of the source hold no \<^verbatim>\<open>$\<close> pattern.\<close>
  "replace [] pat rep = (if pat = [] then rep else [])"
| "replace (c # cs) pat rep =
     (if prefix pat (c # cs) then rep @ drop (length pat) (c # cs)
      else c # replace cs pat rep)"

fun replace_all :: "string \<Rightarrow> char \<Rightarrow> string \<Rightarrow> string" where
  \<comment> \<open>\<^verbatim>\<open>String.prototype.replace\<close> with the global regular expression that matches
      the one character \<open>c\<close>: every occurrence, scanning from the left.\<close>
  "replace_all [] c rep = []"
| "replace_all (x # xs) c rep =
     (if x = c then rep @ replace_all xs c rep else x # replace_all xs c rep)"

definition truthy :: "string \<Rightarrow> bool" where
  \<comment> \<open>\<^verbatim>\<open>Boolean(s)\<close> for a string: every string but the empty one\<close>
  "truthy s = (s \<noteq> [])"

section \<open>Types of \<^verbatim>\<open>index.ts\<close>\<close>

text \<open>The flag types are closed unions of string literals; each is a datatype with the
  function that gives the literal.\<close>

datatype ResetFlag =
  ResetSoft | ResetMixed | ResetHard | ResetMerge | ResetKeep | ResetQuiet | ResetVerbose

fun ResetFlag_str :: "ResetFlag \<Rightarrow> string" where
  "ResetFlag_str ResetSoft = ''--soft''"
| "ResetFlag_str ResetMixed = ''--mixed''"
| "ResetFlag_str ResetHard = ''--hard''"
| "ResetFlag_str ResetMerge = ''--merge''"
| "ResetFlag_str ResetKeep = ''--keep''"
| "ResetFlag_str ResetQuiet = ''--quiet''"
| "ResetFlag_str ResetVerbose = ''--verbose''"

datatype RestoreFlag =
  RestoreStaged | RestoreWorktree | RestoreQuiet | RestoreProgress | RestoreSource string

fun RestoreFlag_str :: "RestoreFlag \<Rightarrow> string" where
  "RestoreFlag_str RestoreStaged = ''--staged''"
| "RestoreFlag_str RestoreWorktree = ''--worktree''"
| "RestoreFlag_str RestoreQuiet = ''--quiet''"
| "RestoreFlag_str RestoreProgress = ''--progress''"
| "RestoreFlag_str (RestoreSource s) = ''--source='' @ s"

datatype CommitFlag =
  CommitAmend | CommitNoEdit | CommitAllowEmpty | CommitNoVerify | CommitSignoff | CommitVerbose

fun CommitFlag_str :: "CommitFlag \<Rightarrow> string" where
  "CommitFlag_str CommitAmend = ''--amend''"
| "CommitFlag_str CommitNoEdit = ''--no-edit''"
| "CommitFlag_str CommitAllowEmpty = ''--allow-empty''"
| "CommitFlag_str CommitNoVerify = ''--no-verify''"
| "CommitFlag_str CommitSignoff = ''--signoff''"
| "CommitFlag_str CommitVerbose = ''--verbose''"

datatype PushFlag =
  PushForce | PushForceWithLease | PushTags | PushFollowTags | PushSetUpstream
  | PushDryRun | PushDelete | PushAll

fun PushFlag_str :: "PushFlag \<Rightarrow> string" where
  "PushFlag_str PushForce = ''--force''"
| "PushFlag_str PushForceWithLease = ''--force-with-lease''"
| "PushFlag_str PushTags = ''--tags''"
| "PushFlag_str PushFollowTags = ''--follow-tags''"
| "PushFlag_str PushSetUpstream = ''--set-upstream''"
| "PushFlag_str PushDryRun = ''--dry-run''"
| "PushFlag_str PushDelete = ''--delete''"
| "PushFlag_str PushAll = ''--all''"

datatype TagFlag = TagAnnotate | TagDelete | TagForce | TagList

fun TagFlag_str :: "TagFlag \<Rightarrow> string" where
  "TagFlag_str TagAnnotate = ''--annotate''"
| "TagFlag_str TagDelete = ''--delete''"
| "TagFlag_str TagForce = ''--force''"
| "TagFlag_str TagList = ''--list''"

datatype MergeFlag =
  MergeNoFf | MergeFfOnly | MergeSquash | MergeNoCommit | MergeCommit | MergeEdit
  | MergeNoEdit | MergeStrategyOurs | MergeStrategyRecursive

fun MergeFlag_str :: "MergeFlag \<Rightarrow> string" where
  "MergeFlag_str MergeNoFf = ''--no-ff''"
| "MergeFlag_str MergeFfOnly = ''--ff-only''"
| "MergeFlag_str MergeSquash = ''--squash''"
| "MergeFlag_str MergeNoCommit = ''--no-commit''"
| "MergeFlag_str MergeCommit = ''--commit''"
| "MergeFlag_str MergeEdit = ''--edit''"
| "MergeFlag_str MergeNoEdit = ''--no-edit''"
| "MergeFlag_str MergeStrategyOurs = ''--strategy=ours''"
| "MergeFlag_str MergeStrategyRecursive = ''--strategy=recursive''"

datatype CheckoutFlag =
  Checkout_b | Checkout_B | CheckoutDetach | CheckoutForce | CheckoutOrphan

fun CheckoutFlag_str :: "CheckoutFlag \<Rightarrow> string" where
  "CheckoutFlag_str Checkout_b = ''-b''"
| "CheckoutFlag_str Checkout_B = ''-B''"
| "CheckoutFlag_str CheckoutDetach = ''--detach''"
| "CheckoutFlag_str CheckoutForce = ''--force''"
| "CheckoutFlag_str CheckoutOrphan = ''--orphan''"

datatype BranchFlag =
  Branch_d | Branch_D | Branch_m | Branch_M | BranchList | BranchShowCurrent

fun BranchFlag_str :: "BranchFlag \<Rightarrow> string" where
  "BranchFlag_str Branch_d = ''-d''"
| "BranchFlag_str Branch_D = ''-D''"
| "BranchFlag_str Branch_m = ''-m''"
| "BranchFlag_str Branch_M = ''-M''"
| "BranchFlag_str BranchList = ''--list''"
| "BranchFlag_str BranchShowCurrent = ''--show-current''"

text \<open>A parameter of type \<^verbatim>\<open>T | T[]\<close>: \<^verbatim>\<open>Array.isArray\<close> holds of \<open>Many\<close> only.
  An optional parameter is an \<open>option\<close>, \<open>None\<close> for \<^verbatim>\<open>undefined\<close>.\<close>

datatype 'a one_or_many = One 'a | Many "'a list"

text \<open>The first two parameters of \<^verbatim>\<open>push\<close>: a name, or an array of push flags.\<close>

datatype push_arg = Name string | FlagArray "PushFlag list"

record GitOptions =
  cwd_option :: "string option"

record Git =
  cwd :: string

definition Git_new :: "string \<Rightarrow> GitOptions \<Rightarrow> Git" where
  \<comment> \<open>the constructor; the first argument is what \<^verbatim>\<open>process.cwd()\<close> returns\<close>
  "Git_new process_cwd options =
     \<lparr>cwd = (case cwd_option options of
               None \<Rightarrow> process_cwd
             | Some d \<Rightarrow> if truthy d then d else process_cwd)\<rparr>"

section \<open>The subprocess and promises\<close>

text \<open>
  \<^verbatim>\<open>child_process.exec\<close> is a parameter of the model: given the command line, the
  working directory and the state of the world \<open>'w\<close> (file system, repository), it gives
  the three arguments of the callback and the world after the subprocess. The first
  argument of the callback is \<^verbatim>\<open>null\<close> exactly when the subprocess exited with status
  zero.
\<close>

datatype ExecException = ExitStatus int | SpawnFailure

record exec_callback =
  error :: "ExecException option"
  stdout :: string
  stderr :: string

type_synonym 'w exec = "string \<Rightarrow> string \<Rightarrow> 'w \<Rightarrow> exec_callback \<times> 'w"

text \<open>What a promise is rejected with: \<^verbatim>\<open>new Error(message)\<close>, or a bare string.\<close>

datatype reason = Error string | Thrown string

text \<open>A promise, run in a world, settles as rejected (\<open>Inl\<close>) or fulfilled (\<open>Inr\<close>) and
  leaves a world.\<close>

type_synonym ('w, 'a) promise = "'w \<Rightarrow> (reason + 'a) \<times> 'w"

definition resolve :: "'a \<Rightarrow> ('w, 'a) promise" where
  "resolve x = (\<lambda>w. (Inr x, w))"

definition await :: "('w, 'a) promise \<Rightarrow> ('a \<Rightarrow> ('w, 'b) promise) \<Rightarrow> ('w, 'b) promise" where
  \<comment> \<open>\<^verbatim>\<open>const x = await p; k(x)\<close> inside an async function: a rejection of \<open>p\<close>
      rejects the whole\<close>
  "await p k = (\<lambda>w. case p w of
                      (Inl e, w') \<Rightarrow> (Inl e, w')
                    | (Inr x, w') \<Rightarrow> k x w')"

section \<open>The class \<^verbatim>\<open>Git\<close>\<close>

definition tryCommand :: "('w, 'a) promise \<Rightarrow> ('w, bool) promise" where
  \<comment> \<open>the argument is the function that makes the promise; calling and awaiting it is
      running it in the world\<close>
  "tryCommand cmd = (\<lambda>w. case cmd w of
                          (Inr x, w') \<Rightarrow> (Inr True, w')
                        | (Inl e, w') \<Rightarrow> (Inr False, w'))"

definition runCommand :: "'w exec \<Rightarrow> Git \<Rightarrow> string \<Rightarrow> ('w, string) promise" where
  "runCommand exec this cmd =
     (\<lambda>w. case exec cmd (cwd this) w of
             (out, w') \<Rightarrow>
               (if error out \<noteq> None
                then Inl (Error (''Error executing command: '' @ cmd @ ''\<newline>'' @ stderr out))
                else Inr (trim (stdout out)), w'))"

definition getUserName :: "'w exec \<Rightarrow> Git \<Rightarrow> ('w, string) promise" where
  "getUserName exec this = runCommand exec this ''git config user.name''"

definition setUserName :: "'w exec \<Rightarrow> Git \<Rightarrow> string \<Rightarrow> ('w, string) promise" where
  \<open>setUserName exec this name =
     runCommand exec this (''git config --global user.name "'' @ name @ ''" '')\<close>

definition getUserEmail :: "'w exec \<Rightarrow> Git \<Rightarrow> ('w, string) promise" where
  "getUserEmail exec this = runCommand exec this ''git config user.email''"

definition setUserEmail :: "'w exec \<Rightarrow> Git \<Rightarrow> string \<Rightarrow> ('w, string) promise" where
  \<open>setUserEmail exec this email =
     runCommand exec this (''git config --global user.email "'' @ email @ ''"'')\<close>

definition hasNoUnstagedChanges :: "'w exec \<Rightarrow> Git \<Rightarrow> ('w, bool) promise" where
  "hasNoUnstagedChanges exec this = tryCommand (runCommand exec this ''git diff --quiet'')"

definition hasNoStagedChanges :: "'w exec \<Rightarrow> Git \<Rightarrow> ('w, bool) promise" where
  "hasNoStagedChanges exec this =
     tryCommand (runCommand exec this ''git diff --cached --quiet'')"

definition isWorkingDirClean :: "'w exec \<Rightarrow> Git \<Rightarrow> ('w, bool) promise" where
  "isWorkingDirClean exec this =
     await (hasNoUnstagedChanges exec this) (\<lambda>unstagedClean.
     await (hasNoStagedChanges exec this) (\<lambda>stagedClean.
     resolve (unstagedClean \<and> stagedClean)))"

definition hasUpstreamBranch :: "'w exec \<Rightarrow> Git \<Rightarrow> ('w, bool) promise" where
  "hasUpstreamBranch exec this =
     tryCommand (runCommand exec this
       (''git rev-parse --abbrev-ref --symbolic-full-name '' @ [CHR 0x40] @ ''{u}''))"

definition getCurrentBranchName :: "'w exec \<Rightarrow> Git \<Rightarrow> ('w, string) promise" where
  "getCurrentBranchName exec this = runCommand exec this ''git rev-parse --abbrev-ref HEAD''"

definition getDefaultBranchName :: "'w exec \<Rightarrow> Git \<Rightarrow> ('w, string) promise" where
  "getDefaultBranchName exec this =
     await (runCommand exec this ''git branch -r'') (\<lambda>branches.
       let defaultBranch =
             find (\<lambda>branch. includes_str branch ''origin/HEAD'') (split_str branches CHR 0x0A)
       in resolve (case defaultBranch of
                     Some line \<Rightarrow>
                       if truthy line then trim (replace line ''origin/HEAD -> origin/'' '''')
                       else ''main''
                   | None \<Rightarrow> ''main''))"

definition add :: "'w exec \<Rightarrow> Git \<Rightarrow> string one_or_many option \<Rightarrow> ('w, string) promise" where
  "add exec this path_arg =
     (let path = (case path_arg of None \<Rightarrow> One ''.'' | Some p \<Rightarrow> p);
          normalizedPath = (case path of Many ps \<Rightarrow> join ps '' '' | One p \<Rightarrow> p)
      in runCommand exec this (''git add '' @ normalizedPath @ '' ''))"

definition reset :: "'w exec \<Rightarrow> Git \<Rightarrow> string \<Rightarrow> ResetFlag option \<Rightarrow> ('w, string) promise" where
  \<comment> \<open>an omitted flag is \<^verbatim>\<open>undefined\<close>, which \<^verbatim>\<open>filter(Boolean)\<close> drops\<close>
  "reset exec this hashValue flag =
     (let parts = filter truthy
            ([''git reset''] @ (case flag of None \<Rightarrow> [] | Some f \<Rightarrow> [ResetFlag_str f])
             @ [hashValue])
      in runCommand exec this (join parts '' ''))"

definition restore ::
  "'w exec \<Rightarrow> Git \<Rightarrow> string one_or_many option \<Rightarrow> RestoreFlag option \<Rightarrow> ('w, string) promise" where
  "restore exec this target_arg flag =
     (let target = (case target_arg of None \<Rightarrow> One ''.'' | Some t \<Rightarrow> t);
          normalizedTarget = (case target of Many ts \<Rightarrow> join ts '' '' | One t \<Rightarrow> t);
          flagPart = (case flag of
                        None \<Rightarrow> ''''
                      | Some f \<Rightarrow> if truthy (RestoreFlag_str f) then '' '' @ RestoreFlag_str f
                                  else '''')
      in runCommand exec this (''git restore'' @ flagPart @ '' '' @ normalizedTarget))"

definition commit ::
  "'w exec \<Rightarrow> Git \<Rightarrow> string \<Rightarrow> CommitFlag one_or_many option \<Rightarrow> ('w, Git) promise" where
  \<open>commit exec this message flags =
     (let flagsPart =
            (case flags of
               None \<Rightarrow> ''''
             | Some (Many fs) \<Rightarrow> '' '' @ join (map CommitFlag_str fs) '' ''
             | Some (One f) \<Rightarrow>
                 if truthy (CommitFlag_str f) then '' '' @ CommitFlag_str f else '''')
      in await (runCommand exec this
                  (''git commit -m "'' @ replace_all message (CHR 0x22) [CHR 0x5C, CHR 0x22]
                   @ ''"'' @ flagsPart))
           (\<lambda>_. resolve this))\<close>

definition init :: "'w exec \<Rightarrow> Git \<Rightarrow> ('w, Git) promise" where
  "init exec this = await (runCommand exec this ''git init'') (\<lambda>_. resolve this)"

definition clone :: "'w exec \<Rightarrow> Git \<Rightarrow> string \<Rightarrow> string option \<Rightarrow> ('w, Git) promise" where
  "clone exec this url dir_arg =
     (let dir = (case dir_arg of None \<Rightarrow> '''' | Some d \<Rightarrow> d)
      in await (runCommand exec this (''git clone '' @ url @ '' '' @ dir))
           (\<lambda>_. resolve this))"

definition push ::
  "'w exec \<Rightarrow> Git \<Rightarrow> push_arg option \<Rightarrow> push_arg option \<Rightarrow> PushFlag one_or_many option
     \<Rightarrow> ('w, Git) promise" where
  "push exec this remote_arg branch_arg flags_arg =
     (let remote = (case remote_arg of None \<Rightarrow> Name ''origin'' | Some r \<Rightarrow> r);
          branch = (case branch_arg of None \<Rightarrow> Name '''' | Some b \<Rightarrow> b);
          flags = (case flags_arg of None \<Rightarrow> Many [] | Some f \<Rightarrow> f);
          (finalRemote, finalBranch, finalFlags) =
            (case remote of
               FlagArray fs \<Rightarrow> (''origin'', '''', fs)
             | Name r \<Rightarrow>
                 (case branch of
                    FlagArray fs \<Rightarrow> (r, '''', fs)
                  | Name b \<Rightarrow>
                      (r, b, case flags of
                               Many fs \<Rightarrow> fs
                             | One f \<Rightarrow> filter (\<lambda>x. truthy (PushFlag_str x)) [f])));
          flagStr = (if length finalFlags \<noteq> 0
                     then join (map PushFlag_str finalFlags) '' '' @ '' '' else '''');
          branchRef = (if truthy finalBranch then finalRemote @ '' '' @ finalBranch
                       else finalRemote)
      in await (runCommand exec this (''git push '' @ flagStr @ branchRef))
           (\<lambda>_. resolve this))"

definition tag ::
  "'w exec \<Rightarrow> Git \<Rightarrow> string \<Rightarrow> TagFlag one_or_many option \<Rightarrow> ('w, string) promise" where
  "tag exec this v flags =
     (let flagStr =
            (case flags of
               None \<Rightarrow> ''''
             | Some (Many fs) \<Rightarrow> join (map TagFlag_str fs) '' '' @ '' ''
             | Some (One f) \<Rightarrow> if truthy (TagFlag_str f) then TagFlag_str f @ '' '' else '''')
      in runCommand exec this (''git tag '' @ flagStr @ v))"

definition merge ::
  "'w exec \<Rightarrow> Git \<Rightarrow> string \<Rightarrow> MergeFlag one_or_many option \<Rightarrow> ('w, string) promise" where
  "merge exec this branchName flags =
     (let flagStr =
            (case flags of
               None \<Rightarrow> ''''
             | Some (Many fs) \<Rightarrow> join (map MergeFlag_str fs) '' '' @ '' ''
             | Some (One f) \<Rightarrow> if truthy (MergeFlag_str f) then MergeFlag_str f @ '' '' else '''')
      in runCommand exec this (''git merge '' @ flagStr @ branchName))"

definition checkout ::
  "'w exec \<Rightarrow> Git \<Rightarrow> string \<Rightarrow> CheckoutFlag one_or_many option \<Rightarrow> ('w, Git) promise" where
  "checkout exec this target flags =
     (let flagStr =
            (case flags of
               None \<Rightarrow> ''''
             | Some (Many fs) \<Rightarrow> join (map CheckoutFlag_str fs) '' '' @ '' ''
             | Some (One f) \<Rightarrow>
                 if truthy (CheckoutFlag_str f) then CheckoutFlag_str f @ '' '' else '''')
      in await (runCommand exec this (''git checkout '' @ flagStr @ target))
           (\<lambda>_. resolve this))"

definition branch ::
  "'w exec \<Rightarrow> Git \<Rightarrow> string option \<Rightarrow> BranchFlag one_or_many option \<Rightarrow> ('w, string) promise" where
  \<comment> \<open>an omitted name is \<^verbatim>\<open>undefined\<close>, which \<^verbatim>\<open>filter(Boolean)\<close> drops\<close>
  "branch exec this name flags_arg =
     (let flags = (case flags_arg of None \<Rightarrow> Many [] | Some f \<Rightarrow> f);
          flagArr = (case flags of
                       Many fs \<Rightarrow> map BranchFlag_str fs
                     | One f \<Rightarrow> if truthy (BranchFlag_str f) then [BranchFlag_str f] else []);
          parts = filter truthy
            ([''git branch''] @ flagArr @ (case name of None \<Rightarrow> [] | Some n \<Rightarrow> [n]))
      in runCommand exec this (join parts '' ''))"

section \<open>The class \<^verbatim>\<open>Git\<close> of \<^verbatim>\<open>src/index.ts\<close>\<close>

text \<open>
  \<^verbatim>\<open>src/index.ts\<close> holds a shorter class \<^verbatim>\<open>Git\<close>. Its \<^verbatim>\<open>runCommand\<close> rejects with the
  message itself, not with an \<^verbatim>\<open>Error\<close> object; its \<^verbatim>\<open>tryCommand\<close> has the body modelled
  by \<open>tryCommand\<close> above, and its other methods have the bodies of their namesakes.
\<close>

definition runCommand_index :: "'w exec \<Rightarrow> Git \<Rightarrow> string \<Rightarrow> ('w, string) promise" where
  "runCommand_index exec this cmd =
     (\<lambda>w. case exec cmd (cwd this) w of
             (out, w') \<Rightarrow>
               (if error out \<noteq> None
                then Inl (Thrown (''Error executing command: '' @ cmd @ ''\<newline>'' @ stderr out))
                else Inr (trim (stdout out)), w'))"

definition getUserName_index :: "'w exec \<Rightarrow> Git \<Rightarrow> ('w, string) promise" where
  "getUserName_index exec this = runCommand_index exec this ''git config user.name''"

definition getUserEmail_index :: "'w exec \<Rightarrow> Git \<Rightarrow> ('w, string) promise" where
  "getUserEmail_index exec this = runCommand_index exec this ''git config user.email''"

definition hasNoUnstagedChanges_index :: "'w exec \<Rightarrow> Git \<Rightarrow> ('w, bool) promise" where
  "hasNoUnstagedChanges_index exec this =
     tryCommand (runCommand_index exec this ''git diff --quiet'')"

definition hasNoStagedChanges_index :: "'w exec \<Rightarrow> Git \<Rightarrow> ('w, bool) promise" where
  "hasNoStagedChanges_index exec this =
     tryCommand (runCommand_index exec this ''git diff --cached --quiet'')"

definition isWorkingDirClean_index :: "'w exec \<Rightarrow> Git \<Rightarrow> ('w, bool) promise" where
  "isWorkingDirClean_index exec this =
     await (hasNoUnstagedChanges_index exec this) (\<lambda>unstagedClean.
     await (hasNoStagedChanges_index exec this) (\<lambda>stagedClean.
     resolve (unstagedClean \<and> stagedClean)))"

definition hasUpstreamBranch_index :: "'w exec \<Rightarrow> Git \<Rightarrow> ('w, bool) promise" where
  "hasUpstreamBranch_index exec this =
     tryCommand (runCommand_index exec this
       (''git rev-parse --abbrev-ref --symbolic-full-name '' @ [CHR 0x40] @ ''{u}''))"

definition getCurrentBranchName_index :: "'w exec \<Rightarrow> Git \<Rightarrow> ('w, string) promise" where
  "getCurrentBranchName_index exec this =
     runCommand_index exec this ''git rev-parse --abbrev-ref HEAD''"

definition getDefaultBranchName_index :: "'w exec \<Rightarrow> Git \<Rightarrow> ('w, string) promise" where
  "getDefaultBranchName_index exec this =
     await (runCommand_index exec this ''git branch -r'') (\<lambda>branches.
       let defaultBranch =
             find (\<lambda>branch. includes_str branch ''origin/HEAD'') (split_str branches CHR 0x0A)
       in resolve (case defaultBranch of
                     Some line \<Rightarrow>
                       if truthy line then trim (replace line ''origin/HEAD -> origin/'' '''')
                       else ''main''
                   | None \<Rightarrow> ''main''))"

section \<open>Subprocess runners for the examples\<close>

text \<open>
  A scripted runner: the world is the list of command lines run so far, and a table
  gives what the subprocess reports for each command line.
\<close>

definition ok :: "string \<Rightarrow> exec_callback" where
  "ok out = \<lparr>error = None, stdout = out, stderr = ''''\<rparr>"

definition failed :: "int \<Rightarrow> string \<Rightarrow> exec_callback" where
  "failed status err = \<lparr>error = Some (ExitStatus status), stdout = '''', stderr = err\<rparr>"

definition scripted :: "(string \<Rightarrow> exec_callback) \<Rightarrow> (string list) exec" where
  "scripted table cmd dir w = (table cmd, w @ [cmd])"

text \<open>No unstaged change, but a staged one: \<^verbatim>\<open>git diff --quiet\<close> exits with status zero,
  every other command with status one.\<close>

definition first_clean :: "string \<Rightarrow> exec_callback" where
  "first_clean cmd = (if cmd = ''git diff --quiet'' then ok '''' else failed 1 '''')"

text \<open>Subprocesses that succeed and also write to standard error, and subprocesses
  that cannot be spawned.\<close>

definition noisy :: "string \<Rightarrow> exec_callback" where
  "noisy out = \<lparr>error = None, stdout = out, stderr = ''warning: noise''\<rparr>"

definition spawn_failed :: "string \<Rightarrow> exec_callback" where
  "spawn_failed err = \<lparr>error = Some SpawnFailure, stdout = '''', stderr = err\<rparr>"

definition repo :: Git where
  "repo = \<lparr>cwd = ''/repo''\<rparr>"

section \<open>Properties of the built-ins\<close>

subsection \<open>\<open>trim\<close>\<close>

text \<open>\<open>trim\<close> removes a run of white space at each end and nothing else, and what it
  leaves neither starts nor ends with white space; this determines its result.\<close>

lemma trim_decompose:
  "s = takeWhile is_white_space s @ trim s
         @ rev (takeWhile is_white_space (rev (dropWhile is_white_space s)))"
proof -
  let ?d = "dropWhile is_white_space s"
  have "rev ?d = takeWhile is_white_space (rev ?d) @ dropWhile is_white_space (rev ?d)"
    by simp
  then have "rev (rev ?d) = rev (takeWhile is_white_space (rev ?d) @ dropWhile is_white_space (rev ?d))"
    by (rule arg_cong)
  then have "?d = trim s @ rev (takeWhile is_white_space (rev ?d))"
    unfolding trim_def rev_append rev_rev_ident .
  moreover have "s = takeWhile is_white_space s @ ?d" by simp
  ultimately show ?thesis by simp
qed

lemma trim_last: "trim s \<noteq> [] \<Longrightarrow> \<not> is_white_space (last (trim s))"
  by (simp add: trim_def last_rev hd_dropWhile)

lemma trim_hd:
  assumes "trim s \<noteq> []"
  shows "\<not> is_white_space (hd (trim s))"
proof -
  let ?d = "dropWhile is_white_space s"
  have d: "?d = trim s @ rev (takeWhile is_white_space (rev ?d))"
    using trim_decompose [of s] takeWhile_dropWhile_id [of is_white_space s]
    by (metis same_append_eq)
  with assms have "?d \<noteq> []" by (metis append_is_Nil_conv)
  then have "\<not> is_white_space (hd ?d)" by (rule hd_dropWhile)
  moreover have "hd ?d = hd (trim s)" using d assms by (metis hd_append2)
  ultimately show ?thesis by simp
qed

lemma trim_white_space_around:
  "\<exists>l t. s = l @ trim s @ t \<and> list_all is_white_space l \<and> list_all is_white_space t"
proof (intro exI conjI)
  show "s = takeWhile is_white_space s @ trim s
         @ rev (takeWhile is_white_space (rev (dropWhile is_white_space s)))"
    by (rule trim_decompose)
  show "list_all is_white_space (takeWhile is_white_space s)"
    by (simp add: list_all_iff) (meson set_takeWhileD)
  show "list_all is_white_space (rev (takeWhile is_white_space (rev (dropWhile is_white_space s))))"
    by (simp add: list_all_iff) (meson set_takeWhileD)
qed

lemma trim_unique:
  assumes "s = l @ m @ t" "list_all is_white_space l" "list_all is_white_space t"
    and "m \<noteq> []" "\<not> is_white_space (hd m)" "\<not> is_white_space (last m)"
  shows "trim s = m"
proof -
  have "dropWhile is_white_space (l @ m @ t) = dropWhile is_white_space (m @ t)"
    by (rule dropWhile_append2) (use assms(2) in \<open>simp add: list_all_iff\<close>)
  moreover have "dropWhile is_white_space (m @ t) = m @ t"
    using assms(4,5) by (cases m) simp_all
  ultimately have 1: "dropWhile is_white_space s = m @ t"
    using assms(1) by simp
  have "dropWhile is_white_space (rev t @ rev m) = dropWhile is_white_space (rev m)"
    by (rule dropWhile_append2) (use assms(3) in \<open>simp add: list_all_iff\<close>)
  moreover have "dropWhile is_white_space (rev m) = rev m"
  proof -
    from assms(4) have "rev m = last m # rev (butlast m)"
      by (metis append_butlast_last_id rev.simps(2) rev_rev_ident rev_singleton_conv rev_append append_Cons append_Nil)
    moreover have "dropWhile is_white_space (last m # rev (butlast m)) = last m # rev (butlast m)"
      using assms(6) by simp
    ultimately show ?thesis by (simp only:)
  qed
  ultimately have 2: "dropWhile is_white_space (rev t @ rev m) = rev m"
    by simp
  show ?thesis by (simp add: trim_def 1 2)
qed

subsection \<open>\<open>join\<close> and \<open>split\<close>\<close>

text \<open>\<open>join\<close> emits every element whole and in order, with the separator between
  neighbours; splitting at a separator that no element holds gives the elements back.\<close>

lemma join_concat: "ps \<noteq> [] \<Longrightarrow> join ps sep @ sep = concat (map (\<lambda>p. p @ sep) ps)"
  by (induction ps sep rule: join.induct) simp_all

lemma split_str_no_sep: "sep \<notin> set x \<Longrightarrow> split_str x sep = [x]"
  by (induction x) auto

lemma split_str_append_sep:
  "sep \<notin> set x \<Longrightarrow> split_str (x @ sep # rest) sep = x # split_str rest sep"
  by (induction x) auto

lemma split_str_join:
  "xs \<noteq> [] \<Longrightarrow> \<forall>x\<in>set xs. sep \<notin> set x \<Longrightarrow> split_str (join xs [sep]) sep = xs"
  by (induction xs "[sep]" rule: join.induct) (simp_all add: split_str_no_sep split_str_append_sep)

subsection \<open>Promises and \<open>runCommand\<close>\<close>

lemma await_resolve_const:
  "await p (\<lambda>_. resolve x) w =
     (case p w of (Inl e, w') \<Rightarrow> (Inl e, w') | (Inr y, w') \<Rightarrow> (Inr x, w'))"
  by (simp add: await_def resolve_def split: prod.splits sum.splits)

lemma tryCommand_cases:
  "tryCommand p w = (case p w of (Inl e, w') \<Rightarrow> (Inr False, w') | (Inr y, w') \<Rightarrow> (Inr True, w'))"
  by (simp add: tryCommand_def split: prod.splits sum.splits)

lemma runCommand_exec:
  "exec cmd (cwd this) w = (out, w') \<Longrightarrow>
   runCommand exec this cmd w =
     (if error out = None then Inr (trim (stdout out))
      else Inl (Error (''Error executing command: '' @ cmd @ ''\<newline>'' @ stderr out)), w')"
  by (simp add: runCommand_def)

lemma runCommand_index_exec:
  "exec cmd (cwd this) w = (out, w') \<Longrightarrow>
   runCommand_index exec this cmd w =
     (if error out = None then Inr (trim (stdout out))
      else Inl (Thrown (''Error executing command: '' @ cmd @ ''\<newline>'' @ stderr out)), w')"
  by (simp add: runCommand_index_def)

subsection \<open>\<open>includes\<close>\<close>

lemma includes_str_sublist: "includes_str s pat = sublist pat s"
  by (induction s) (simp_all add: sublist_Cons_right)

subsection \<open>Evaluating the examples\<close>

lemmas eval_defs = runCommand_def runCommand_index_def scripted_def ok_def failed_def repo_def
  noisy_def spawn_failed_def first_clean_def
  trim_def is_white_space_def await_def resolve_def tryCommand_def truthy_def

section \<open>The claims\<close>

subsection \<open>Setting the user name and e-mail\<close>

text \<open>
  Claim C10. For every name, \<^verbatim>\<open>setUserName\<close> runs exactly the command line
  \<^verbatim>\<open>git config --global user.name "<name>" \<close> (with the trailing space), and for every
  e-mail \<^verbatim>\<open>setUserEmail\<close> runs exactly \<^verbatim>\<open>git config --global user.email "<email>"\<close>. The
  value stands between the double quotes as it is: a double quote in it is not escaped.
\<close>

theorem setUser_verbatim:
  \<open>setUserName exec this name =
     runCommand exec this (''git config --global user.name "'' @ name @ ''" '')
   \<and> setUserEmail exec this email =
     runCommand exec this (''git config --global user.email "'' @ email @ ''"'')\<close>
  by (simp add: setUserName_def setUserEmail_def)

text \<open>With the runner that reports its command line as output, a name and an e-mail that
  hold double quotes reach the command line unchanged.\<close>

theorem setUser_verbatim_witness:
  \<open>setUserName (scripted ok) repo ''J "D"'' [] =
     (Inr ''git config --global user.name "J "D""'',
      [''git config --global user.name "J "D"" ''])
   \<and> setUserEmail (scripted ok) repo ''a"b'' [] =
     (Inr ''git config --global user.email "a"b"'',
      [''git config --global user.email "a"b"''])\<close>
  using setUser_verbatim [of "scripted ok" repo \<open>''J "D"''\<close> \<open>''a"b''\<close>]
  by (simp add: runCommand_def scripted_def ok_def repo_def trim_def is_white_space_def)

subsection \<open>Staging paths\<close>

text \<open>
  Claim C7. \<^verbatim>\<open>add()\<close> with no argument runs the same command line as \<^verbatim>\<open>add(".")\<close>. For
  every list of paths, \<^verbatim>\<open>add\<close> joins them with single spaces in the given order, no
  element split or moved: for a list that is not empty the command line is \<^verbatim>\<open>git add \<close>
  followed by each path in turn, each with one space after it. So \<^verbatim>\<open>add(["a","b"])\<close> runs
  \<^verbatim>\<open>git add a b \<close>, with the trailing space.
\<close>

theorem add_paths:
  "add exec this None = add exec this (Some (One ''.''))
   \<and> add exec this (Some (Many ps)) = runCommand exec this (''git add '' @ join ps '' '' @ '' '')
   \<and> (ps \<noteq> [] \<longrightarrow>
        add exec this (Some (Many ps)) =
          runCommand exec this (''git add '' @ concat (map (\<lambda>p. p @ '' '') ps)))
   \<and> add exec this (Some (Many [''a'', ''b''])) = runCommand exec this ''git add a b ''"
  using join_concat [of ps "'' ''"] by (simp add: add_def)

text \<open>The scripted runner records the command lines: a path that holds a space stays in
  one piece.\<close>

theorem add_paths_witness:
  "[''src/'', ''my docs''] \<noteq> []
   \<and> add (scripted ok) repo None [] = (Inr ''git add .'', [''git add . ''])
   \<and> add (scripted ok) repo (Some (One ''.'')) [] = (Inr ''git add .'', [''git add . ''])
   \<and> add (scripted ok) repo (Some (Many [''src/'', ''my docs''])) [] =
       (Inr ''git add src/ my docs'', [''git add src/ my docs ''])
   \<and> add (scripted ok) repo (Some (Many [''a'', ''b''])) [] = (Inr ''git add a b'', [''git add a b ''])"
  using add_paths [of "scripted ok" repo "[''src/'', ''my docs'']"]
  by (simp add: add_def runCommand_def scripted_def ok_def repo_def trim_def is_white_space_def)

subsection \<open>Methods that return the instance\<close>

text \<open>
  Claim C9. \<^verbatim>\<open>init\<close>, \<^verbatim>\<open>clone\<close>, \<^verbatim>\<open>checkout\<close> and \<^verbatim>\<open>commit\<close> each run their command
  through \<open>runCommand\<close>; when it is fulfilled they return the instance itself, not the
  output of the command, and when it is rejected they are rejected with the same reason.
\<close>

theorem chaining_methods:
  "init exec this w =
     (case runCommand exec this ''git init'' w of
        (Inl e, w') \<Rightarrow> (Inl e, w') | (Inr out, w') \<Rightarrow> (Inr this, w'))
   \<and> clone exec this url dir w =
     (case runCommand exec this
             (''git clone '' @ url @ '' '' @ (case dir of None \<Rightarrow> '''' | Some d \<Rightarrow> d)) w of
        (Inl e, w') \<Rightarrow> (Inl e, w') | (Inr out, w') \<Rightarrow> (Inr this, w'))
   \<and> (\<exists>cmd. prefix ''git checkout '' cmd \<and> checkout exec this target cflags w =
     (case runCommand exec this cmd w of
        (Inl e, w') \<Rightarrow> (Inl e, w') | (Inr out, w') \<Rightarrow> (Inr this, w')))
   \<and> (\<exists>cmd. prefix ''git commit -m '' cmd \<and> commit exec this message mflags w =
     (case runCommand exec this cmd w of
        (Inl e, w') \<Rightarrow> (Inl e, w') | (Inr out, w') \<Rightarrow> (Inr this, w')))"
proof (intro conjI)
  show "init exec this w =
     (case runCommand exec this ''git init'' w of
        (Inl e, w') \<Rightarrow> (Inl e, w') | (Inr out, w') \<Rightarrow> (Inr this, w'))"
    by (simp add: init_def await_resolve_const)
  show "clone exec this url dir w =
     (case runCommand exec this
             (''git clone '' @ url @ '' '' @ (case dir of None \<Rightarrow> '''' | Some d \<Rightarrow> d)) w of
        (Inl e, w') \<Rightarrow> (Inl e, w') | (Inr out, w') \<Rightarrow> (Inr this, w'))"
    by (simp add: clone_def await_resolve_const)
  show "\<exists>cmd. prefix ''git checkout '' cmd \<and> checkout exec this target cflags w =
     (case runCommand exec this cmd w of
        (Inl e, w') \<Rightarrow> (Inl e, w') | (Inr out, w') \<Rightarrow> (Inr this, w'))"
    unfolding checkout_def Let_def await_resolve_const
    by (rule exI, rule conjI [OF _ refl]) simp
  show "\<exists>cmd. prefix ''git commit -m '' cmd \<and> commit exec this message mflags w =
     (case runCommand exec this cmd w of
        (Inl e, w') \<Rightarrow> (Inl e, w') | (Inr out, w') \<Rightarrow> (Inr this, w'))"
    unfolding commit_def Let_def await_resolve_const
    by (rule exI, rule conjI [OF _ refl]) simp
qed

text \<open>Each of the four on a runner that succeeds and on one that fails.\<close>

theorem chaining_methods_witness:
  \<open>init (scripted ok) repo [] = (Inr repo, [''git init''])
   \<and> init (scripted (\<lambda>_. failed 1 ''fatal'')) repo [] =
       (Inl (Error ''Error executing command: git init\<newline>fatal''), [''git init''])
   \<and> clone (scripted ok) repo ''u.git'' (Some ''d'') [] = (Inr repo, [''git clone u.git d''])
   \<and> clone (scripted (\<lambda>_. failed 128 ''fatal'')) repo ''u.git'' None [] =
       (Inl (Error ''Error executing command: git clone u.git \<newline>fatal''),
        [''git clone u.git ''])
   \<and> checkout (scripted ok) repo ''main'' None [] = (Inr repo, [''git checkout main''])
   \<and> checkout (scripted (\<lambda>_. failed 1 ''fatal'')) repo ''x'' (Some (One Checkout_b)) [] =
       (Inl (Error ''Error executing command: git checkout -b x\<newline>fatal''),
        [''git checkout -b x''])
   \<and> commit (scripted ok) repo ''m'' None [] = (Inr repo, [''git commit -m "m"''])\<close>
  using chaining_methods [of "scripted ok" repo "[]" "''u.git''" "Some ''d''" "''main''" None "''m''" None]
  by (simp add: eval_defs init_def clone_def checkout_def commit_def)

subsection \<open>The working directory is clean\<close>

text \<open>
  Claim C8. \<^verbatim>\<open>isWorkingDirClean()\<close> returns true if and only if both probes,
  \<^verbatim>\<open>hasNoUnstagedChanges\<close> and \<^verbatim>\<open>hasNoStagedChanges\<close>, return true, and false when either
  returns false, also when the first returns true and the second false. The probes run
  one after the other: the second runs in the world the first has left, and the world
  after the second is the world after the whole. Both probes only ever return true or
  false. The same holds of the class in \<^verbatim>\<open>src/index.ts\<close>.
\<close>

theorem isWorkingDirClean_both:
  "(hasNoUnstagedChanges exec this w = (r1, w1) \<and> hasNoStagedChanges exec this w1 = (r2, w2)
      \<longrightarrow> isWorkingDirClean exec this w = (Inr (r1 = Inr True \<and> r2 = Inr True), w2)
          \<and> (r1 = Inr True \<or> r1 = Inr False) \<and> (r2 = Inr True \<or> r2 = Inr False))
   \<and> (hasNoUnstagedChanges_index exec this w = (r1, w1)
        \<and> hasNoStagedChanges_index exec this w1 = (r2, w2)
      \<longrightarrow> isWorkingDirClean_index exec this w = (Inr (r1 = Inr True \<and> r2 = Inr True), w2)
          \<and> (r1 = Inr True \<or> r1 = Inr False) \<and> (r2 = Inr True \<or> r2 = Inr False))"
  by (auto simp add: isWorkingDirClean_def hasNoUnstagedChanges_def hasNoStagedChanges_def
      isWorkingDirClean_index_def hasNoUnstagedChanges_index_def hasNoStagedChanges_index_def
      await_def resolve_def tryCommand_cases split: prod.splits sum.splits)

text \<open>The first probe true and the second false; the record of the runner shows the
  order of the two commands.\<close>

theorem isWorkingDirClean_both_witness:
  "hasNoUnstagedChanges (scripted first_clean) repo [] = (Inr True, [''git diff --quiet''])
   \<and> hasNoStagedChanges (scripted first_clean) repo [''git diff --quiet'']
       = (Inr False, [''git diff --quiet'', ''git diff --cached --quiet''])
   \<and> isWorkingDirClean (scripted first_clean) repo []
       = (Inr False, [''git diff --quiet'', ''git diff --cached --quiet''])
   \<and> hasNoUnstagedChanges_index (scripted first_clean) repo [] = (Inr True, [''git diff --quiet''])
   \<and> hasNoStagedChanges_index (scripted first_clean) repo [''git diff --quiet'']
       = (Inr False, [''git diff --quiet'', ''git diff --cached --quiet''])
   \<and> isWorkingDirClean_index (scripted first_clean) repo []
       = (Inr False, [''git diff --quiet'', ''git diff --cached --quiet''])"
proof -
  have 1: "hasNoUnstagedChanges (scripted first_clean) repo [] = (Inr True, [''git diff --quiet''])"
    by (simp add: hasNoUnstagedChanges_def first_clean_def eval_defs)
  have 2: "hasNoStagedChanges (scripted first_clean) repo [''git diff --quiet'']
       = (Inr False, [''git diff --quiet'', ''git diff --cached --quiet''])"
    by (simp add: hasNoStagedChanges_def first_clean_def eval_defs)
  have 3: "hasNoUnstagedChanges_index (scripted first_clean) repo [] = (Inr True, [''git diff --quiet''])"
    by (simp add: hasNoUnstagedChanges_index_def first_clean_def eval_defs)
  have 4: "hasNoStagedChanges_index (scripted first_clean) repo [''git diff --quiet'']
       = (Inr False, [''git diff --quiet'', ''git diff --cached --quiet''])"
    by (simp add: hasNoStagedChanges_index_def first_clean_def eval_defs)
  show ?thesis
    using isWorkingDirClean_both [of "scripted first_clean" repo "[]" "Inr True" "[''git diff --quiet'']"
        "Inr False" "[''git diff --quiet'', ''git diff --cached --quiet'']"] 1 2 3 4
    by simp
qed

subsection \<open>The probes\<close>

text \<open>
  Claim C5. Each probe (\<^verbatim>\<open>hasNoUnstagedChanges\<close>, \<^verbatim>\<open>hasNoStagedChanges\<close>,
  \<^verbatim>\<open>hasUpstreamBranch\<close>) returns true exactly when the command it wraps is fulfilled,
  whatever the text it is fulfilled with, and false when it is rejected, whatever the
  reason: \<^verbatim>\<open>tryCommand\<close> is never rejected, and the result of a probe depends on the
  subprocess only through whether it reported an error. The same holds of the class in
  \<^verbatim>\<open>src/index.ts\<close>.
\<close>

theorem probes_fail_soft:
  "(p w = (Inr x, w') \<longrightarrow> tryCommand p w = (Inr True, w'))
   \<and> (p w = (Inl e, w') \<longrightarrow> tryCommand p w = (Inr False, w'))
   \<and> (exec ''git diff --quiet'' (cwd this) w1 = (out1, w1') \<longrightarrow>
        hasNoUnstagedChanges exec this w1 = (Inr (error out1 = None), w1')
        \<and> hasNoUnstagedChanges_index exec this w1 = (Inr (error out1 = None), w1'))
   \<and> (exec ''git diff --cached --quiet'' (cwd this) w2 = (out2, w2') \<longrightarrow>
        hasNoStagedChanges exec this w2 = (Inr (error out2 = None), w2')
        \<and> hasNoStagedChanges_index exec this w2 = (Inr (error out2 = None), w2'))
   \<and> (exec (''git rev-parse --abbrev-ref --symbolic-full-name '' @ [CHR 0x40] @ ''{u}'')
          (cwd this) w3 = (out3, w3') \<longrightarrow>
        hasUpstreamBranch exec this w3 = (Inr (error out3 = None), w3')
        \<and> hasUpstreamBranch_index exec this w3 = (Inr (error out3 = None), w3'))"
  by (simp add: tryCommand_cases runCommand_exec runCommand_index_exec
      hasNoUnstagedChanges_def hasNoUnstagedChanges_index_def
      hasNoStagedChanges_def hasNoStagedChanges_index_def
      hasUpstreamBranch_def hasUpstreamBranch_index_def)

text \<open>A subprocess that succeeds, one that exits with a status other than zero, with and
  without text on standard error, and one that cannot be spawned.\<close>

theorem probes_fail_soft_witness:
  "tryCommand (runCommand (scripted ok) repo ''git status'') [] = (Inr True, [''git status''])
   \<and> tryCommand (runCommand (scripted (\<lambda>_. failed 128 ''fatal: not a git repository''))
         repo ''git status'') [] = (Inr False, [''git status''])
   \<and> hasNoUnstagedChanges (scripted ok) repo [] = (Inr True, [''git diff --quiet''])
   \<and> hasNoUnstagedChanges_index (scripted ok) repo [] = (Inr True, [''git diff --quiet''])
   \<and> hasNoStagedChanges (scripted (\<lambda>_. failed 1 '''')) repo []
        = (Inr False, [''git diff --cached --quiet''])
   \<and> hasNoStagedChanges_index (scripted (\<lambda>_. failed 1 '''')) repo []
        = (Inr False, [''git diff --cached --quiet''])
   \<and> hasUpstreamBranch (scripted (\<lambda>_. spawn_failed ''/bin/sh: git: not found'')) repo []
        = (Inr False, [''git rev-parse --abbrev-ref --symbolic-full-name '' @ [CHR 0x40] @ ''{u}''])
   \<and> hasUpstreamBranch_index (scripted (\<lambda>_. spawn_failed ''/bin/sh: git: not found'')) repo []
        = (Inr False, [''git rev-parse --abbrev-ref --symbolic-full-name '' @ [CHR 0x40] @ ''{u}''])"
proof -
  let ?u = "''git rev-parse --abbrev-ref --symbolic-full-name '' @ [CHR 0x40] @ ''{u}''"
  have a: "runCommand (scripted ok) repo ''git status'' [] = (Inr ''git status'', [''git status''])"
    by (simp add: eval_defs)
  have b: "runCommand (scripted (\<lambda>_. failed 128 ''fatal: not a git repository'')) repo ''git status'' []
      = (Inl (Error ''Error executing command: git status\<newline>fatal: not a git repository''),
         [''git status''])"
    by (simp add: eval_defs)
  have c: "scripted ok ''git diff --quiet'' (cwd repo) [] = (ok ''git diff --quiet'', [''git diff --quiet''])"
    by (simp add: scripted_def)
  have d: "scripted (\<lambda>_. failed 1 '''') ''git diff --cached --quiet'' (cwd repo) []
      = (failed 1 '''', [''git diff --cached --quiet''])"
    by (simp add: scripted_def)
  have e: "scripted (\<lambda>_. spawn_failed ''/bin/sh: git: not found'') ?u (cwd repo) []
      = (spawn_failed ''/bin/sh: git: not found'', [?u])"
    by (simp add: scripted_def)
  from probes_fail_soft [where p = "runCommand (scripted ok) repo ''git status''" and w = "[]",
      THEN conjunct1, rule_format, OF a]
  have 1: "tryCommand (runCommand (scripted ok) repo ''git status'') [] = (Inr True, [''git status''])" .
  from probes_fail_soft [where p = "runCommand (scripted (\<lambda>_. failed 128 ''fatal: not a git repository'')) repo ''git status''"
      and w = "[]", THEN conjunct2, THEN conjunct1, rule_format, OF b]
  have 2: "tryCommand (runCommand (scripted (\<lambda>_. failed 128 ''fatal: not a git repository''))
         repo ''git status'') [] = (Inr False, [''git status''])" .
  from probes_fail_soft [where exec = "scripted ok" and this = repo and ?w1.0 = "[]",
      THEN conjunct2, THEN conjunct2, THEN conjunct1, rule_format, OF c]
  have 3: "hasNoUnstagedChanges (scripted ok) repo [] = (Inr True, [''git diff --quiet''])
     \<and> hasNoUnstagedChanges_index (scripted ok) repo [] = (Inr True, [''git diff --quiet''])"
    by (simp add: ok_def)
  from probes_fail_soft [where exec = "scripted (\<lambda>_. failed 1 '''')" and this = repo and ?w2.0 = "[]",
      THEN conjunct2, THEN conjunct2, THEN conjunct2, THEN conjunct1, rule_format, OF d]
  have 4: "hasNoStagedChanges (scripted (\<lambda>_. failed 1 '''')) repo []
        = (Inr False, [''git diff --cached --quiet''])
   \<and> hasNoStagedChanges_index (scripted (\<lambda>_. failed 1 '''')) repo []
        = (Inr False, [''git diff --cached --quiet''])"
    by (simp add: failed_def)
  from probes_fail_soft [where exec = "scripted (\<lambda>_. spawn_failed ''/bin/sh: git: not found'')"
      and this = repo and ?w3.0 = "[]",
      THEN conjunct2, THEN conjunct2, THEN conjunct2, THEN conjunct2, rule_format, OF e]
  have 5: "hasUpstreamBranch (scripted (\<lambda>_. spawn_failed ''/bin/sh: git: not found'')) repo []
        = (Inr False, [?u])
   \<and> hasUpstreamBranch_index (scripted (\<lambda>_. spawn_failed ''/bin/sh: git: not found'')) repo []
        = (Inr False, [?u])"
    by (simp add: spawn_failed_def)
  from 1 2 3 4 5 show ?thesis by simp
qed

subsection \<open>Pushing\<close>

lemma PushFlag_str_truthy: "truthy (PushFlag_str f)"
  by (cases f) (simp_all add: truthy_def)

text \<open>
  Claim C1. For every call of \<^verbatim>\<open>push\<close>: when the first argument is an array of flags, it
  is the whole flag set, the remote is \<^verbatim>\<open>origin\<close> and no branch is emitted, whatever the
  other arguments. Otherwise the first argument is the remote (\<^verbatim>\<open>origin\<close> when omitted);
  when the second argument is an array of flags, it is the flag set and no branch is
  emitted; else the second argument is the branch and the third gives the flags. The
  command line has the flags joined by spaces, with one space after them when there is
  a flag, before the remote, and the branch, when it is not empty, after the remote and
  one space. So \<^verbatim>\<open>push()\<close> runs \<^verbatim>\<open>git push origin\<close>, \<^verbatim>\<open>push(["--force"])\<close> runs
  \<^verbatim>\<open>git push --force origin\<close> and \<^verbatim>\<open>push("origin","dev",["--tags"])\<close> runs
  \<^verbatim>\<open>git push --tags origin dev\<close>.
\<close>

theorem push_resolution:
  "push exec this (Some (FlagArray fs)) branch_arg flags_arg =
     await (runCommand exec this
              (''git push ''
               @ (if fs = [] then '''' else join (map PushFlag_str fs) '' '' @ '' '')
               @ ''origin''))
       (\<lambda>_. resolve this)
   \<and> push exec this (Some (Name r)) (Some (FlagArray fs)) flags_arg =
     await (runCommand exec this
              (''git push ''
               @ (if fs = [] then '''' else join (map PushFlag_str fs) '' '' @ '' '')
               @ r))
       (\<lambda>_. resolve this)
   \<and> push exec this (Some (Name r)) (Some (Name b)) flags_arg =
     await (runCommand exec this
              (''git push ''
               @ (case flags_arg of
                    None \<Rightarrow> ''''
                  | Some (One f) \<Rightarrow> PushFlag_str f @ '' ''
                  | Some (Many gs) \<Rightarrow>
                      if gs = [] then '''' else join (map PushFlag_str gs) '' '' @ '' '')
               @ r @ (if b = [] then '''' else '' '' @ b)))
       (\<lambda>_. resolve this)
   \<and> push exec this None branch_arg flags_arg =
       push exec this (Some (Name ''origin'')) branch_arg flags_arg
   \<and> push exec this remote_arg None flags_arg =
       push exec this remote_arg (Some (Name '''')) flags_arg
   \<and> push exec this None None None =
       await (runCommand exec this ''git push origin'') (\<lambda>_. resolve this)
   \<and> push exec this (Some (FlagArray [PushForce])) None None =
       await (runCommand exec this ''git push --force origin'') (\<lambda>_. resolve this)
   \<and> push exec this (Some (Name ''origin'')) (Some (Name ''dev'')) (Some (Many [PushTags])) =
       await (runCommand exec this ''git push --tags origin dev'') (\<lambda>_. resolve this)"
proof (intro conjI)
  show "push exec this (Some (Name r)) (Some (Name b)) flags_arg =
     await (runCommand exec this
              (''git push ''
               @ (case flags_arg of
                    None \<Rightarrow> ''''
                  | Some (One f) \<Rightarrow> PushFlag_str f @ '' ''
                  | Some (Many gs) \<Rightarrow>
                      if gs = [] then '''' else join (map PushFlag_str gs) '' '' @ '' '')
               @ r @ (if b = [] then '''' else '' '' @ b)))
       (\<lambda>_. resolve this)"
    by (simp add: push_def truthy_def PushFlag_str_truthy [unfolded truthy_def]
        split: option.splits one_or_many.splits)
qed (simp_all add: push_def truthy_def)

text \<open>The three examples of the claim, the examples of the documentation comment, and
  calls whose later arguments are overridden by an array in an earlier position.\<close>

theorem push_resolution_witness:
  "push (scripted ok) repo None None None [] = (Inr repo, [''git push origin''])
   \<and> push (scripted ok) repo (Some (FlagArray [PushForce])) None None []
       = (Inr repo, [''git push --force origin''])
   \<and> push (scripted ok) repo (Some (FlagArray [PushForce, PushTags])) (Some (Name ''dev''))
        (Some (One PushAll)) []
       = (Inr repo, [''git push --force --tags origin''])
   \<and> push (scripted ok) repo (Some (Name ''up'')) (Some (FlagArray [PushDryRun]))
        (Some (One PushAll)) []
       = (Inr repo, [''git push --dry-run up''])
   \<and> push (scripted ok) repo (Some (Name ''origin'')) (Some (Name ''main'')) (Some (One PushForce)) []
       = (Inr repo, [''git push --force origin main''])
   \<and> push (scripted ok) repo (Some (Name ''origin'')) (Some (Name ''dev''))
        (Some (Many [PushTags])) []
       = (Inr repo, [''git push --tags origin dev''])
   \<and> push (scripted ok) repo (Some (Name ''origin'')) (Some (Name ''dev''))
        (Some (Many [PushTags, PushSetUpstream])) []
       = (Inr repo, [''git push --tags --set-upstream origin dev''])"
  using push_resolution [of "scripted ok" repo "[PushForce, PushTags]" "Some (Name ''dev'')"
      "Some (One PushAll)" "''up''" "''dev''" None]
    push_resolution [of "scripted ok" repo "[PushDryRun]" None "Some (One PushAll)" "''up''" "''main''" None]
    push_resolution [of "scripted ok" repo "[PushForce]" None "Some (One PushForce)" "''origin''" "''main''" None]
    push_resolution [of "scripted ok" repo "[PushForce]" None "Some (Many [PushTags, PushSetUpstream])"
      "''origin''" "''dev''" None]
  by (simp add: eval_defs)

subsection \<open>A flag or a list of flags\<close>

text \<open>Every flag is a string that is not empty and holds no space.\<close>

lemma CommitFlag_str_truthy: "truthy (CommitFlag_str f)"
  by (cases f) (simp_all add: truthy_def)

lemma TagFlag_str_truthy: "truthy (TagFlag_str f)"
  by (cases f) (simp_all add: truthy_def)

lemma MergeFlag_str_truthy: "truthy (MergeFlag_str f)"
  by (cases f) (simp_all add: truthy_def)

lemma CheckoutFlag_str_truthy: "truthy (CheckoutFlag_str f)"
  by (cases f) (simp_all add: truthy_def)

lemma BranchFlag_str_truthy: "truthy (BranchFlag_str f)"
  by (cases f) (simp_all add: truthy_def)

lemma CommitFlag_str_no_space: "CHR '' '' \<notin> set (CommitFlag_str f)"
  by (cases f) simp_all

lemma PushFlag_str_no_space: "CHR '' '' \<notin> set (PushFlag_str f)"
  by (cases f) simp_all

lemma TagFlag_str_no_space: "CHR '' '' \<notin> set (TagFlag_str f)"
  by (cases f) simp_all

lemma MergeFlag_str_no_space: "CHR '' '' \<notin> set (MergeFlag_str f)"
  by (cases f) simp_all

lemma CheckoutFlag_str_no_space: "CHR '' '' \<notin> set (CheckoutFlag_str f)"
  by (cases f) simp_all

lemma BranchFlag_str_no_space: "CHR '' '' \<notin> set (BranchFlag_str f)"
  by (cases f) simp_all

lemma split_str_join_flags:
  assumes "\<And>f. CHR '' '' \<notin> set (str f)" and "fs \<noteq> []"
  shows "split_str (join (map str fs) '' '') CHR '' '' = map str fs"
  using split_str_join [of "map str fs" "CHR '' ''"] assms by simp

lemma filter_truthy_flags:
  assumes "\<And>f. truthy (str f)"
  shows "filter truthy (map str fs) = map str fs"
  using assms by (induction fs) simp_all

text \<open>
  Claim C6. For \<^verbatim>\<open>commit\<close>, \<^verbatim>\<open>tag\<close>, \<^verbatim>\<open>merge\<close>, \<^verbatim>\<open>checkout\<close>, \<^verbatim>\<open>branch\<close> and the
  flags parameter of \<^verbatim>\<open>push\<close>: a single flag gives the command line that the list of
  that one flag gives; a list of flags is joined with single spaces in the order of the
  caller, so that splitting the joined text at the spaces gives the flags back, in
  order.
\<close>

theorem flags_single_or_list:
  \<open>commit exec this message (Some (One cf)) = commit exec this message (Some (Many [cf]))
   \<and> tag exec this v (Some (One tf)) = tag exec this v (Some (Many [tf]))
   \<and> merge exec this branchName (Some (One mf)) = merge exec this branchName (Some (Many [mf]))
   \<and> checkout exec this target (Some (One kf)) = checkout exec this target (Some (Many [kf]))
   \<and> branch exec this name (Some (One bf)) = branch exec this name (Some (Many [bf]))
   \<and> push exec this remote br (Some (One pf)) = push exec this remote br (Some (Many [pf]))
   \<and> commit exec this message (Some (Many cfs)) =
       await (runCommand exec this
                (''git commit -m "'' @ replace_all message (CHR 0x22) [CHR 0x5C, CHR 0x22] @ ''"''
                 @ '' '' @ join (map CommitFlag_str cfs) '' ''))
         (\<lambda>_. resolve this)
   \<and> tag exec this v (Some (Many tfs)) =
       runCommand exec this (''git tag '' @ join (map TagFlag_str tfs) '' '' @ '' '' @ v)
   \<and> merge exec this branchName (Some (Many mfs)) =
       runCommand exec this
         (''git merge '' @ join (map MergeFlag_str mfs) '' '' @ '' '' @ branchName)
   \<and> checkout exec this target (Some (Many kfs)) =
       await (runCommand exec this
                (''git checkout '' @ join (map CheckoutFlag_str kfs) '' '' @ '' '' @ target))
         (\<lambda>_. resolve this)
   \<and> branch exec this name (Some (Many bfs)) =
       runCommand exec this
         (join ([''git branch''] @ map BranchFlag_str bfs
                @ (case name of None \<Rightarrow> [] | Some n \<Rightarrow> if n = [] then [] else [n])) '' '')
   \<and> push exec this (Some (Name r)) (Some (Name b)) (Some (Many pfs)) =
       await (runCommand exec this
                (''git push ''
                 @ (if pfs = [] then '''' else join (map PushFlag_str pfs) '' '' @ '' '')
                 @ r @ (if b = [] then '''' else '' '' @ b)))
         (\<lambda>_. resolve this)
   \<and> (cfs \<noteq> [] \<longrightarrow>
        split_str (join (map CommitFlag_str cfs) '' '') CHR '' '' = map CommitFlag_str cfs)
   \<and> (tfs \<noteq> [] \<longrightarrow>
        split_str (join (map TagFlag_str tfs) '' '') CHR '' '' = map TagFlag_str tfs)
   \<and> (mfs \<noteq> [] \<longrightarrow>
        split_str (join (map MergeFlag_str mfs) '' '') CHR '' '' = map MergeFlag_str mfs)
   \<and> (kfs \<noteq> [] \<longrightarrow>
        split_str (join (map CheckoutFlag_str kfs) '' '') CHR '' '' = map CheckoutFlag_str kfs)
   \<and> (bfs \<noteq> [] \<longrightarrow>
        split_str (join (map BranchFlag_str bfs) '' '') CHR '' '' = map BranchFlag_str bfs)
   \<and> (pfs \<noteq> [] \<longrightarrow>
        split_str (join (map PushFlag_str pfs) '' '') CHR '' '' = map PushFlag_str pfs)\<close>
proof -
  have one: \<open>commit exec this message (Some (One cf)) = commit exec this message (Some (Many [cf]))\<close>
    \<open>tag exec this v (Some (One tf)) = tag exec this v (Some (Many [tf]))\<close>
    \<open>merge exec this branchName (Some (One mf)) = merge exec this branchName (Some (Many [mf]))\<close>
    \<open>checkout exec this target (Some (One kf)) = checkout exec this target (Some (Many [kf]))\<close>
    \<open>branch exec this name (Some (One bf)) = branch exec this name (Some (Many [bf]))\<close>
    by (simp_all add: commit_def tag_def merge_def checkout_def branch_def
        CommitFlag_str_truthy TagFlag_str_truthy MergeFlag_str_truthy CheckoutFlag_str_truthy
        BranchFlag_str_truthy)
  have one_push:
    \<open>push exec this remote br (Some (One pf)) = push exec this remote br (Some (Many [pf]))\<close>
    by (simp add: push_def PushFlag_str_truthy split: option.splits push_arg.splits)
  have many: \<open>commit exec this message (Some (Many cfs)) =
       await (runCommand exec this
                (''git commit -m "'' @ replace_all message (CHR 0x22) [CHR 0x5C, CHR 0x22] @ ''"''
                 @ '' '' @ join (map CommitFlag_str cfs) '' ''))
         (\<lambda>_. resolve this)\<close>
    \<open>tag exec this v (Some (Many tfs)) =
       runCommand exec this (''git tag '' @ join (map TagFlag_str tfs) '' '' @ '' '' @ v)\<close>
    \<open>merge exec this branchName (Some (Many mfs)) =
       runCommand exec this
         (''git merge '' @ join (map MergeFlag_str mfs) '' '' @ '' '' @ branchName)\<close>
    \<open>checkout exec this target (Some (Many kfs)) =
       await (runCommand exec this
                (''git checkout '' @ join (map CheckoutFlag_str kfs) '' '' @ '' '' @ target))
         (\<lambda>_. resolve this)\<close>
    \<open>push exec this (Some (Name r)) (Some (Name b)) (Some (Many pfs)) =
       await (runCommand exec this
                (''git push ''
                 @ (if pfs = [] then '''' else join (map PushFlag_str pfs) '' '' @ '' '')
                 @ r @ (if b = [] then '''' else '' '' @ b)))
         (\<lambda>_. resolve this)\<close>
    by (simp_all add: commit_def tag_def merge_def checkout_def push_def truthy_def)
  have br: \<open>branch exec this name (Some (Many bfs)) =
       runCommand exec this
         (join ([''git branch''] @ map BranchFlag_str bfs
                @ (case name of None \<Rightarrow> [] | Some n \<Rightarrow> if n = [] then [] else [n])) '' '')\<close>
    using filter_truthy_flags [of BranchFlag_str bfs, OF BranchFlag_str_truthy]
    by (simp add: branch_def truthy_def split: option.splits)
  note sp = split_str_join_flags [of CommitFlag_str cfs, OF CommitFlag_str_no_space]
    split_str_join_flags [of TagFlag_str tfs, OF TagFlag_str_no_space]
    split_str_join_flags [of MergeFlag_str mfs, OF MergeFlag_str_no_space]
    split_str_join_flags [of CheckoutFlag_str kfs, OF CheckoutFlag_str_no_space]
    split_str_join_flags [of BranchFlag_str bfs, OF BranchFlag_str_no_space]
    split_str_join_flags [of PushFlag_str pfs, OF PushFlag_str_no_space]
  from one one_push many br sp show ?thesis by (intro conjI impI)
qed

text \<open>Each method on a single flag, on the list of that flag, and on a list of two.\<close>

theorem flags_single_or_list_witness:
  \<open>[CommitAmend, CommitNoEdit] \<noteq> [] \<and> [TagAnnotate, TagForce] \<noteq> []
   \<and> [MergeSquash, MergeNoCommit] \<noteq> [] \<and> [CheckoutForce, Checkout_b] \<noteq> []
   \<and> [Branch_d] \<noteq> [] \<and> [PushTags, PushSetUpstream] \<noteq> []
   \<and> commit (scripted ok) repo ''fix'' (Some (One CommitAmend)) []
       = (Inr repo, [''git commit -m "fix" --amend''])
   \<and> commit (scripted ok) repo ''fix'' (Some (Many [CommitAmend])) []
       = (Inr repo, [''git commit -m "fix" --amend''])
   \<and> commit (scripted ok) repo ''fix'' (Some (Many [CommitAmend, CommitNoEdit])) []
       = (Inr repo, [''git commit -m "fix" --amend --no-edit''])
   \<and> tag (scripted ok) repo ''v1'' (Some (One TagDelete)) [] = (Inr ''git tag --delete v1'', [''git tag --delete v1''])
   \<and> tag (scripted ok) repo ''v1'' (Some (Many [TagDelete])) [] = (Inr ''git tag --delete v1'', [''git tag --delete v1''])
   \<and> tag (scripted ok) repo ''v1'' (Some (Many [TagAnnotate, TagForce])) []
       = (Inr ''git tag --annotate --force v1'', [''git tag --annotate --force v1''])
   \<and> merge (scripted ok) repo ''hotfix'' (Some (Many [MergeSquash, MergeNoCommit])) []
       = (Inr ''git merge --squash --no-commit hotfix'', [''git merge --squash --no-commit hotfix''])
   \<and> checkout (scripted ok) repo ''nb'' (Some (Many [CheckoutForce, Checkout_b])) []
       = (Inr repo, [''git checkout --force -b nb''])
   \<and> branch (scripted ok) repo (Some ''old'') (Some (One Branch_d)) []
       = (Inr ''git branch -d old'', [''git branch -d old''])
   \<and> branch (scripted ok) repo (Some ''old'') (Some (Many [Branch_d])) []
       = (Inr ''git branch -d old'', [''git branch -d old''])
   \<and> push (scripted ok) repo (Some (Name ''origin'')) (Some (Name ''dev''))
        (Some (Many [PushTags, PushSetUpstream])) []
       = (Inr repo, [''git push --tags --set-upstream origin dev''])
   \<and> split_str ''--amend --no-edit'' CHR '' '' = [''--amend'', ''--no-edit'']
   \<and> split_str ''--annotate --force'' CHR '' '' = [''--annotate'', ''--force'']
   \<and> split_str ''--squash --no-commit'' CHR '' '' = [''--squash'', ''--no-commit'']
   \<and> split_str ''--force -b'' CHR '' '' = [''--force'', ''-b'']
   \<and> split_str ''-d'' CHR '' '' = [''-d'']
   \<and> split_str ''--tags --set-upstream'' CHR '' '' = [''--tags'', ''--set-upstream'']\<close>
  using flags_single_or_list [of "scripted ok" repo "''fix''" CommitAmend "''v1''" TagDelete
      "''hotfix''" MergeSquash "''nb''" CheckoutForce "Some ''old''" Branch_d "Some (Name ''origin'')"
      "Some (Name ''dev'')" PushTags "[CommitAmend, CommitNoEdit]" "[TagAnnotate, TagForce]"
      "[MergeSquash, MergeNoCommit]" "[CheckoutForce, Checkout_b]" "[Branch_d]" "''origin''" "''dev''"
      "[PushTags, PushSetUpstream]"]
  by (simp add: eval_defs commit_def tag_def branch_def)

subsection \<open>The commit message\<close>

text \<open>Replacing every double quote by a backslash and a double quote: each element of
  the message gives its own piece of the result, every double quote of the result has
  a backslash before it, and the double quotes are as many as before.\<close>

lemma replace_all_concat:
  "replace_all s c rep = concat (map (\<lambda>x. if x = c then rep else [x]) s)"
  by (induction s) simp_all

lemma escaped_quote_preceded:
  assumes "i < length (replace_all s (CHR 0x22) [CHR 0x5C, CHR 0x22])"
    and "replace_all s (CHR 0x22) [CHR 0x5C, CHR 0x22] ! i = CHR 0x22"
  shows "0 < i \<and> replace_all s (CHR 0x22) [CHR 0x5C, CHR 0x22] ! (i - 1) = CHR 0x5C"
  using assms
proof (induction s arbitrary: i)
  case Nil
  then show ?case by simp
next
  case (Cons x xs)
  let ?e = "replace_all xs (CHR 0x22) [CHR 0x5C, CHR 0x22]"
  show ?case
  proof (cases "x = CHR 0x22")
    case True
    then have e: "replace_all (x # xs) (CHR 0x22) [CHR 0x5C, CHR 0x22] = CHR 0x5C # CHR 0x22 # ?e"
      by simp
    show ?thesis
    proof (cases "i < 2")
      case True
      with Cons.prems e show ?thesis by (cases i) auto
    next
      case False
      define j where "j = i - 2"
      with False have j: "i = Suc (Suc j)" by simp
      with Cons.prems e have "j < length ?e" "?e ! j = CHR 0x22" by simp_all
      from Cons.IH [OF this] have "0 < j" "?e ! (j - 1) = CHR 0x5C" by simp_all
      with e j show ?thesis by (cases j) simp_all
    qed
  next
    case False
    then have e: "replace_all (x # xs) (CHR 0x22) [CHR 0x5C, CHR 0x22] = x # ?e"
      by simp
    show ?thesis
    proof (cases i)
      case 0
      with Cons.prems e False show ?thesis by simp
    next
      case (Suc j)
      with Cons.prems e have "j < length ?e" "?e ! j = CHR 0x22" by simp_all
      from Cons.IH [OF this] have "0 < j" "?e ! (j - 1) = CHR 0x5C" by simp_all
      with e Suc show ?thesis by (cases j) simp_all
    qed
  qed
qed

lemma escaped_quote_count:
  "length (filter (\<lambda>x. x = CHR 0x22) (replace_all s (CHR 0x22) [CHR 0x5C, CHR 0x22]))
     = length (filter (\<lambda>x. x = CHR 0x22) s)"
  by (induction s) simp_all

lemma escaped_length:
  "length (replace_all s (CHR 0x22) [CHR 0x5C, CHR 0x22])
     = length s + length (filter (\<lambda>x. x = CHR 0x22) s)"
  by (induction s) simp_all

text \<open>
  Claim C3. For every message, the command line that \<^verbatim>\<open>commit\<close> builds has the message
  between double quotes, every double quote of the message replaced by a backslash and
  a double quote before the outer quotes are put around it: every double quote between
  the outer quotes stands right after a backslash, and there is one for each double
  quote of the message.
\<close>

theorem commit_message_quoting:
  \<open>commit exec this message flags =
     await (runCommand exec this
              (''git commit -m "''
               @ concat (map (\<lambda>x. if x = CHR 0x22 then [CHR 0x5C, CHR 0x22] else [x]) message)
               @ ''"''
               @ (case flags of
                    None \<Rightarrow> ''''
                  | Some (One f) \<Rightarrow> '' '' @ CommitFlag_str f
                  | Some (Many fs) \<Rightarrow> '' '' @ join (map CommitFlag_str fs) '' '')))
       (\<lambda>_. resolve this)
   \<and> (\<forall>i < length (concat (map (\<lambda>x. if x = CHR 0x22 then [CHR 0x5C, CHR 0x22] else [x]) message)).
         concat (map (\<lambda>x. if x = CHR 0x22 then [CHR 0x5C, CHR 0x22] else [x]) message) ! i = CHR 0x22
         \<longrightarrow> 0 < i
             \<and> concat (map (\<lambda>x. if x = CHR 0x22 then [CHR 0x5C, CHR 0x22] else [x]) message) ! (i - 1)
                 = CHR 0x5C)
   \<and> length (filter (\<lambda>x. x = CHR 0x22)
         (concat (map (\<lambda>x. if x = CHR 0x22 then [CHR 0x5C, CHR 0x22] else [x]) message)))
       = length (filter (\<lambda>x. x = CHR 0x22) message)
   \<and> length (concat (map (\<lambda>x. if x = CHR 0x22 then [CHR 0x5C, CHR 0x22] else [x]) message))
       = length message + length (filter (\<lambda>x. x = CHR 0x22) message)\<close>
proof (intro conjI allI impI)
  let ?e = "concat (map (\<lambda>x. if x = CHR 0x22 then [CHR 0x5C, CHR 0x22] else [x]) message)"
  have e: "?e = replace_all message (CHR 0x22) [CHR 0x5C, CHR 0x22]"
    by (simp only: replace_all_concat)
  show \<open>commit exec this message flags =
     await (runCommand exec this
              (''git commit -m "'' @ ?e @ ''"''
               @ (case flags of
                    None \<Rightarrow> ''''
                  | Some (One f) \<Rightarrow> '' '' @ CommitFlag_str f
                  | Some (Many fs) \<Rightarrow> '' '' @ join (map CommitFlag_str fs) '' '')))
       (\<lambda>_. resolve this)\<close>
    unfolding e
    by (simp add: commit_def CommitFlag_str_truthy split: option.splits one_or_many.splits)
  show "length (filter (\<lambda>x. x = CHR 0x22) ?e) = length (filter (\<lambda>x. x = CHR 0x22) message)"
    unfolding e by (rule escaped_quote_count)
  show "length ?e = length message + length (filter (\<lambda>x. x = CHR 0x22) message)"
    unfolding e by (rule escaped_length)
  fix i
  assume "i < length ?e" "?e ! i = CHR 0x22"
  then show "0 < i" "?e ! (i - 1) = CHR 0x5C"
    unfolding e using escaped_quote_preceded [of i message] by simp_all
qed

text \<open>A message with two double quotes: positions 4 and 5 of the escaped message hold the
  backslash and the first double quote.\<close>

theorem commit_message_quoting_witness:
  \<open>commit (scripted ok) repo ''say "hi"'' None []
     = (Inr repo, [''git commit -m "say '' @ [CHR 0x5C] @ ''"hi'' @ [CHR 0x5C] @ ''""''])
   \<and> replace_all ''say "hi"'' (CHR 0x22) [CHR 0x5C, CHR 0x22] ! 4 = CHR 0x5C
   \<and> replace_all ''say "hi"'' (CHR 0x22) [CHR 0x5C, CHR 0x22] ! 5 = CHR 0x22
   \<and> length (replace_all ''say "hi"'' (CHR 0x22) [CHR 0x5C, CHR 0x22]) = 10\<close>
  using commit_message_quoting [of "scripted ok" repo \<open>''say "hi"''\<close> None,
      THEN conjunct2, THEN conjunct1, rule_format, of 5]
    commit_message_quoting [of "scripted ok" repo \<open>''say "hi"''\<close> None, THEN conjunct1]
  by (simp add: eval_defs)

subsection \<open>The default branch\<close>

text \<open>\<open>replace\<close> with a string pattern leaves a text without the pattern as it is, and
  removes the pattern where it first stands; white space in front of a text does not
  change what \<open>trim\<close> gives; \<open>find\<close> gives the first element that satisfies the test.\<close>

lemma replace_absent:
  "pat \<noteq> [] \<Longrightarrow> \<not> sublist pat s \<Longrightarrow> replace s pat rep = s"
  by (induction s) (auto simp add: sublist_Cons_right)

lemma replace_first_occurrence:
  assumes "pat \<noteq> []" and "\<forall>c\<in>set p. c \<noteq> hd pat"
  shows "replace (p @ pat @ r) pat rep = p @ rep @ r"
  using assms
proof (induction p)
  case Nil
  then show ?case by (cases pat) simp_all
next
  case (Cons x xs)
  then have "\<not> prefix pat (x # xs @ pat @ r)"
    by (cases pat) auto
  with Cons show ?case by simp
qed

lemma trim_leading_white_space:
  "list_all is_white_space p \<Longrightarrow> trim (p @ r) = trim r"
  by (simp add: trim_def list_all_iff dropWhile_append2)

lemma find_first:
  assumes "i < length xs" and "P (xs ! i)" and "\<forall>j<i. \<not> P (xs ! j)"
  shows "find P xs = Some (xs ! i)"
  using assms by (auto simp add: find_Some_iff)

lemma find_none: "\<forall>x\<in>set xs. \<not> P x \<Longrightarrow> find P xs = None"
  by (simp add: find_None_iff)

lemma marker_line_result:
  assumes "split_str branches CHR 0x0A = lines"
  shows "(\<forall>l\<in>set lines. \<not> sublist ''origin/HEAD'' l) \<longrightarrow>
           (case find (\<lambda>branch. includes_str branch ''origin/HEAD'') (split_str branches CHR 0x0A) of
              Some line \<Rightarrow>
                if truthy line then trim (replace line ''origin/HEAD -> origin/'' '''') else ''main''
            | None \<Rightarrow> ''main'') = ''main''"
    and "i < length lines \<and> sublist ''origin/HEAD'' (lines ! i)
           \<and> (\<forall>j<i. \<not> sublist ''origin/HEAD'' (lines ! j)) \<longrightarrow>
           (case find (\<lambda>branch. includes_str branch ''origin/HEAD'') (split_str branches CHR 0x0A) of
              Some line \<Rightarrow>
                if truthy line then trim (replace line ''origin/HEAD -> origin/'' '''') else ''main''
            | None \<Rightarrow> ''main'') = trim (replace (lines ! i) ''origin/HEAD -> origin/'' '''')"
proof -
  show "(\<forall>l\<in>set lines. \<not> sublist ''origin/HEAD'' l) \<longrightarrow>
           (case find (\<lambda>branch. includes_str branch ''origin/HEAD'') (split_str branches CHR 0x0A) of
              Some line \<Rightarrow>
                if truthy line then trim (replace line ''origin/HEAD -> origin/'' '''') else ''main''
            | None \<Rightarrow> ''main'') = ''main''"
    using assms by (auto simp add: includes_str_sublist find_none)
  show "i < length lines \<and> sublist ''origin/HEAD'' (lines ! i)
           \<and> (\<forall>j<i. \<not> sublist ''origin/HEAD'' (lines ! j)) \<longrightarrow>
           (case find (\<lambda>branch. includes_str branch ''origin/HEAD'') (split_str branches CHR 0x0A) of
              Some line \<Rightarrow>
                if truthy line then trim (replace line ''origin/HEAD -> origin/'' '''') else ''main''
            | None \<Rightarrow> ''main'') = trim (replace (lines ! i) ''origin/HEAD -> origin/'' '''')"
  proof
    assume a: "i < length lines \<and> sublist ''origin/HEAD'' (lines ! i)
           \<and> (\<forall>j<i. \<not> sublist ''origin/HEAD'' (lines ! j))"
    then have "find (\<lambda>branch. includes_str branch ''origin/HEAD'') lines = Some (lines ! i)"
      by (intro find_first) (simp_all add: includes_str_sublist)
    moreover from a have "truthy (lines ! i)"
      by (auto simp add: truthy_def)
    ultimately show "(case find (\<lambda>branch. includes_str branch ''origin/HEAD'') (split_str branches CHR 0x0A) of
              Some line \<Rightarrow>
                if truthy line then trim (replace line ''origin/HEAD -> origin/'' '''') else ''main''
            | None \<Rightarrow> ''main'') = trim (replace (lines ! i) ''origin/HEAD -> origin/'' '''')"
      using assms by simp
  qed
qed

lemma not_white_space_o: "\<not> is_white_space (CHR ''o'')"
  by (simp add: is_white_space_def)

lemma white_space_not_o:
  assumes "list_all is_white_space p"
  shows "\<forall>c\<in>set p. c \<noteq> hd ''origin/HEAD -> origin/''"
proof
  fix c assume "c \<in> set p"
  with assms have "is_white_space c" by (simp add: list_all_iff)
  with not_white_space_o have "c \<noteq> CHR ''o''" by blast
  then show "c \<noteq> hd ''origin/HEAD -> origin/''" by simp
qed

text \<open>What \<^verbatim>\<open>getDefaultBranchName\<close> returns when the listing command succeeds, and when
  it fails.\<close>

lemma getDefaultBranchName_fulfilled:
  assumes "exec ''git branch -r'' (cwd this) w = (out, w')" and "error out = None"
  shows "getDefaultBranchName exec this w =
           (Inr (case find (\<lambda>branch. includes_str branch ''origin/HEAD'')
                        (split_str (trim (stdout out)) CHR 0x0A) of
                   Some line \<Rightarrow>
                     if truthy line then trim (replace line ''origin/HEAD -> origin/'' '''')
                     else ''main''
                 | None \<Rightarrow> ''main''), w')"
    and "getDefaultBranchName_index exec this w =
           (Inr (case find (\<lambda>branch. includes_str branch ''origin/HEAD'')
                        (split_str (trim (stdout out)) CHR 0x0A) of
                   Some line \<Rightarrow>
                     if truthy line then trim (replace line ''origin/HEAD -> origin/'' '''')
                     else ''main''
                 | None \<Rightarrow> ''main''), w')"
  using assms
  by (simp_all add: getDefaultBranchName_def getDefaultBranchName_index_def await_def resolve_def
      runCommand_exec runCommand_index_exec)

lemma getDefaultBranchName_rejected:
  assumes "exec ''git branch -r'' (cwd this) w = (out, w')" and "error out \<noteq> None"
  shows "getDefaultBranchName exec this w =
           (Inl (Error (''Error executing command: git branch -r\<newline>'' @ stderr out)), w')"
    and "getDefaultBranchName_index exec this w =
           (Inl (Thrown (''Error executing command: git branch -r\<newline>'' @ stderr out)), w')"
  using assms
  by (simp_all add: getDefaultBranchName_def getDefaultBranchName_index_def await_def resolve_def
      runCommand_exec runCommand_index_exec)

text \<open>
  Claim C4. Let the listing command \<^verbatim>\<open>git branch -r\<close> succeed and let its trimmed output
  be the lines \<open>lines\<close> joined by line feeds. \<^verbatim>\<open>getDefaultBranchName\<close> returns the first
  line that holds \<^verbatim>\<open>origin/HEAD\<close>, with \<^verbatim>\<open>origin/HEAD -> origin/\<close> removed where it first
  stands and the white space at both ends trimmed: for a line that is white space,
  then \<^verbatim>\<open>origin/HEAD -> origin/\<close>, then a rest, it returns the rest trimmed; a line that
  holds the marker but not the whole prefix is returned trimmed. When no line holds the
  marker it returns \<^verbatim>\<open>main\<close>. When the listing command fails, the call is rejected with
  the reason \<^verbatim>\<open>runCommand\<close> gives; the failure is not turned into \<^verbatim>\<open>main\<close>. The same holds
  of the class in \<^verbatim>\<open>src/index.ts\<close>.
\<close>

theorem getDefaultBranchName_contract:
  "(exec ''git branch -r'' (cwd this) w = (out, w') \<and> error out \<noteq> None \<longrightarrow>
      getDefaultBranchName exec this w =
        (Inl (Error (''Error executing command: git branch -r\<newline>'' @ stderr out)), w')
      \<and> getDefaultBranchName_index exec this w =
        (Inl (Thrown (''Error executing command: git branch -r\<newline>'' @ stderr out)), w'))
   \<and> (exec ''git branch -r'' (cwd this) w = (out, w') \<and> error out = None
       \<and> trim (stdout out) = join lines [CHR 0x0A]
       \<and> lines \<noteq> [] \<and> (\<forall>l\<in>set lines. CHR 0x0A \<notin> set l) \<longrightarrow>
        ((\<forall>l\<in>set lines. \<not> sublist ''origin/HEAD'' l) \<longrightarrow>
           getDefaultBranchName exec this w = (Inr ''main'', w')
           \<and> getDefaultBranchName_index exec this w = (Inr ''main'', w'))
      \<and> (\<forall>i<length lines.
            sublist ''origin/HEAD'' (lines ! i) \<and> (\<forall>j<i. \<not> sublist ''origin/HEAD'' (lines ! j)) \<longrightarrow>
              getDefaultBranchName exec this w =
                (Inr (trim (replace (lines ! i) ''origin/HEAD -> origin/'' '''')), w')
              \<and> getDefaultBranchName_index exec this w =
                (Inr (trim (replace (lines ! i) ''origin/HEAD -> origin/'' '''')), w')
              \<and> (\<forall>p r. lines ! i = p @ ''origin/HEAD -> origin/'' @ r \<and> list_all is_white_space p
                    \<longrightarrow> getDefaultBranchName exec this w = (Inr (trim r), w')
                        \<and> getDefaultBranchName_index exec this w = (Inr (trim r), w'))
              \<and> (\<not> sublist ''origin/HEAD -> origin/'' (lines ! i)
                    \<longrightarrow> getDefaultBranchName exec this w = (Inr (trim (lines ! i)), w')
                        \<and> getDefaultBranchName_index exec this w = (Inr (trim (lines ! i)), w'))))"
proof (intro conjI impI allI)
  assume "exec ''git branch -r'' (cwd this) w = (out, w') \<and> error out \<noteq> None"
  then show "getDefaultBranchName exec this w =
        (Inl (Error (''Error executing command: git branch -r\<newline>'' @ stderr out)), w')"
    and "getDefaultBranchName_index exec this w =
        (Inl (Thrown (''Error executing command: git branch -r\<newline>'' @ stderr out)), w')"
    by (simp_all add: getDefaultBranchName_rejected)
next
  assume a: "exec ''git branch -r'' (cwd this) w = (out, w') \<and> error out = None
       \<and> trim (stdout out) = join lines [CHR 0x0A]
       \<and> lines \<noteq> [] \<and> (\<forall>l\<in>set lines. CHR 0x0A \<notin> set l)"
  then have sp: "split_str (trim (stdout out)) CHR 0x0A = lines"
    by (simp add: split_str_join)
  note f = getDefaultBranchName_fulfilled [of exec this w out w']
  note m = marker_line_result [OF sp]
  {
    assume "\<forall>l\<in>set lines. \<not> sublist ''origin/HEAD'' l"
    with m(1) a f show "getDefaultBranchName exec this w = (Inr ''main'', w')"
      and "getDefaultBranchName_index exec this w = (Inr ''main'', w')"
      by simp_all
  }
  fix i
  assume i: "i < length lines"
    and b: "sublist ''origin/HEAD'' (lines ! i) \<and> (\<forall>j<i. \<not> sublist ''origin/HEAD'' (lines ! j))"
  with m(2) [of i] a f
  show r: "getDefaultBranchName exec this w =
                (Inr (trim (replace (lines ! i) ''origin/HEAD -> origin/'' '''')), w')"
    and ri: "getDefaultBranchName_index exec this w =
                (Inr (trim (replace (lines ! i) ''origin/HEAD -> origin/'' '''')), w')"
    by simp_all
  {
    fix p r
    assume c: "lines ! i = p @ ''origin/HEAD -> origin/'' @ r \<and> list_all is_white_space p"
    from c have wp: "list_all is_white_space p" and li: "lines ! i = p @ ''origin/HEAD -> origin/'' @ r"
      by (rule conjunct2, rule conjunct1)
    from wp have "\<forall>c\<in>set p. c \<noteq> hd ''origin/HEAD -> origin/''"
      by (rule white_space_not_o)
    then have "replace (p @ ''origin/HEAD -> origin/'' @ r) ''origin/HEAD -> origin/'' [] = p @ [] @ r"
      by (intro replace_first_occurrence) simp_all
    then have "trim (replace (lines ! i) ''origin/HEAD -> origin/'' []) = trim (p @ r)"
      unfolding li by simp
    also have "\<dots> = trim r"
      using wp by (rule trim_leading_white_space)
    finally have "trim (replace (lines ! i) ''origin/HEAD -> origin/'' []) = trim r" .
    with r ri show "getDefaultBranchName exec this w = (Inr (trim r), w')"
      and "getDefaultBranchName_index exec this w = (Inr (trim r), w')"
      by simp_all
  }
  assume "\<not> sublist ''origin/HEAD -> origin/'' (lines ! i)"
  then have "replace (lines ! i) ''origin/HEAD -> origin/'' '''' = lines ! i"
    by (intro replace_absent) simp_all
  with r ri show "getDefaultBranchName exec this w = (Inr (trim (lines ! i)), w')"
    and "getDefaultBranchName_index exec this w = (Inr (trim (lines ! i)), w')"
    by simp_all
qed

text \<open>The marker on the first line and on the second; a branch whose name starts with
  \<^verbatim>\<open>HEAD\<close>; a listing without the marker; an empty listing; a failing listing command.\<close>

theorem getDefaultBranchName_contract_witness:
  "getDefaultBranchName
     (scripted (\<lambda>_. ok ''  origin/HEAD -> origin/master\<newline>  origin/master\<newline>'')) repo []
     = (Inr ''master'', [''git branch -r''])
   \<and> getDefaultBranchName_index
     (scripted (\<lambda>_. ok ''  origin/dev\<newline>  origin/HEAD -> origin/trunk\<newline>'')) repo []
     = (Inr ''trunk'', [''git branch -r''])
   \<and> getDefaultBranchName (scripted (\<lambda>_. ok ''  origin/HEAD-fix\<newline>'')) repo []
     = (Inr ''origin/HEAD-fix'', [''git branch -r''])
   \<and> getDefaultBranchName (scripted (\<lambda>_. ok ''  origin/dev\<newline>'')) repo []
     = (Inr ''main'', [''git branch -r''])
   \<and> getDefaultBranchName (scripted (\<lambda>_. ok '''')) repo [] = (Inr ''main'', [''git branch -r''])
   \<and> getDefaultBranchName (scripted (\<lambda>_. failed 128 ''fatal: not a git repository'')) repo []
     = (Inl (Error ''Error executing command: git branch -r\<newline>fatal: not a git repository''),
        [''git branch -r''])"
proof -
  let ?o1 = "ok ''  origin/HEAD -> origin/master\<newline>  origin/master\<newline>''"
  let ?l1 = "[''origin/HEAD -> origin/master'', ''  origin/master'']"
  let ?o2 = "ok ''  origin/dev\<newline>  origin/HEAD -> origin/trunk\<newline>''"
  let ?l2 = "[''origin/dev'', ''  origin/HEAD -> origin/trunk'']"
  let ?o3 = "ok ''  origin/HEAD-fix\<newline>''"
  let ?l3 = "[''origin/HEAD-fix'']"
  let ?o4 = "ok ''  origin/dev\<newline>''"
  let ?l4 = "[''origin/dev'']"
  let ?o5 = "ok ''''"
  let ?l5 = "['''']"
  let ?o6 = "failed 128 ''fatal: not a git repository''"
  have h1: "scripted (\<lambda>_. ?o1) ''git branch -r'' (cwd repo) [] = (?o1, [''git branch -r''])
      \<and> error ?o1 = None \<and> trim (stdout ?o1) = join ?l1 [CHR 0x0A]
      \<and> ?l1 \<noteq> [] \<and> (\<forall>l\<in>set ?l1. CHR 0x0A \<notin> set l)"
    by (simp add: scripted_def ok_def trim_def is_white_space_def)
  have h2: "scripted (\<lambda>_. ?o2) ''git branch -r'' (cwd repo) [] = (?o2, [''git branch -r''])
      \<and> error ?o2 = None \<and> trim (stdout ?o2) = join ?l2 [CHR 0x0A]
      \<and> ?l2 \<noteq> [] \<and> (\<forall>l\<in>set ?l2. CHR 0x0A \<notin> set l)"
    by (simp add: scripted_def ok_def trim_def is_white_space_def)
  have h3: "scripted (\<lambda>_. ?o3) ''git branch -r'' (cwd repo) [] = (?o3, [''git branch -r''])
      \<and> error ?o3 = None \<and> trim (stdout ?o3) = join ?l3 [CHR 0x0A]
      \<and> ?l3 \<noteq> [] \<and> (\<forall>l\<in>set ?l3. CHR 0x0A \<notin> set l)"
    by (simp add: scripted_def ok_def trim_def is_white_space_def)
  have h4: "scripted (\<lambda>_. ?o4) ''git branch -r'' (cwd repo) [] = (?o4, [''git branch -r''])
      \<and> error ?o4 = None \<and> trim (stdout ?o4) = join ?l4 [CHR 0x0A]
      \<and> ?l4 \<noteq> [] \<and> (\<forall>l\<in>set ?l4. CHR 0x0A \<notin> set l)"
    by (simp add: scripted_def ok_def trim_def is_white_space_def)
  have h5: "scripted (\<lambda>_. ?o5) ''git branch -r'' (cwd repo) [] = (?o5, [''git branch -r''])
      \<and> error ?o5 = None \<and> trim (stdout ?o5) = join ?l5 [CHR 0x0A]
      \<and> ?l5 \<noteq> [] \<and> (\<forall>l\<in>set ?l5. CHR 0x0A \<notin> set l)"
    by (simp add: scripted_def ok_def trim_def is_white_space_def)
  have h6: "scripted (\<lambda>_. ?o6) ''git branch -r'' (cwd repo) [] = (?o6, [''git branch -r''])
      \<and> error ?o6 \<noteq> None"
    by (simp add: scripted_def failed_def)
  have s1: "sublist ''origin/HEAD'' (?l1 ! 0) \<and> (\<forall>j<0. \<not> sublist ''origin/HEAD'' (?l1 ! j))"
    by (simp add: includes_str_sublist [symmetric])
  have s2: "sublist ''origin/HEAD'' (?l2 ! 1) \<and> (\<forall>j<1. \<not> sublist ''origin/HEAD'' (?l2 ! j))"
    by (simp add: includes_str_sublist [symmetric])
  have s3: "sublist ''origin/HEAD'' (?l3 ! 0) \<and> (\<forall>j<0. \<not> sublist ''origin/HEAD'' (?l3 ! j))"
    by (simp add: includes_str_sublist [symmetric])
  have n3: "\<not> sublist ''origin/HEAD -> origin/'' (?l3 ! 0)"
    by (simp add: includes_str_sublist [symmetric])
  have s4: "\<forall>l\<in>set ?l4. \<not> sublist ''origin/HEAD'' l"
    by (simp add: includes_str_sublist [symmetric])
  have s5: "\<forall>l\<in>set ?l5. \<not> sublist ''origin/HEAD'' l"
    by simp
  have c1: "?l1 ! 0 = [] @ ''origin/HEAD -> origin/'' @ ''master'' \<and> list_all is_white_space []"
    by simp
  have c2: "?l2 ! 1 = ''  '' @ ''origin/HEAD -> origin/'' @ ''trunk'' \<and> list_all is_white_space ''  ''"
    by (simp add: is_white_space_def)
  note t1 = getDefaultBranchName_contract [where exec = "scripted (\<lambda>_. ?o1)" and this = repo
      and w = "[]" and lines = ?l1, THEN conjunct2, rule_format, OF h1]
  note t2 = getDefaultBranchName_contract [where exec = "scripted (\<lambda>_. ?o2)" and this = repo
      and w = "[]" and lines = ?l2, THEN conjunct2, rule_format, OF h2]
  note t3 = getDefaultBranchName_contract [where exec = "scripted (\<lambda>_. ?o3)" and this = repo
      and w = "[]" and lines = ?l3, THEN conjunct2, rule_format, OF h3]
  note t4 = getDefaultBranchName_contract [where exec = "scripted (\<lambda>_. ?o4)" and this = repo
      and w = "[]" and lines = ?l4, THEN conjunct2, rule_format, OF h4]
  note t5 = getDefaultBranchName_contract [where exec = "scripted (\<lambda>_. ?o5)" and this = repo
      and w = "[]" and lines = ?l5, THEN conjunct2, rule_format, OF h5]
  note t6 = getDefaultBranchName_contract [where exec = "scripted (\<lambda>_. ?o6)" and this = repo
      and w = "[]", THEN conjunct1, rule_format, OF h6]
  have l1: "0 < length ?l1" and l2: "1 < length ?l2" and l3: "0 < length ?l3"
    by simp_all
  from t1 [THEN conjunct2, rule_format, OF l1 s1, THEN conjunct2, THEN conjunct2, THEN conjunct1,
      rule_format, OF c1, THEN conjunct1]
  have 1: "getDefaultBranchName (scripted (\<lambda>_. ?o1)) repo [] = (Inr ''master'', [''git branch -r''])"
    by (simp add: trim_def is_white_space_def)
  from t2 [THEN conjunct2, rule_format, OF l2 s2, THEN conjunct2, THEN conjunct2, THEN conjunct1,
      rule_format, OF c2, THEN conjunct2]
  have 2: "getDefaultBranchName_index (scripted (\<lambda>_. ?o2)) repo [] = (Inr ''trunk'', [''git branch -r''])"
    by (simp add: trim_def is_white_space_def)
  from t3 [THEN conjunct2, rule_format, OF l3 s3, THEN conjunct2, THEN conjunct2, THEN conjunct2,
      rule_format, OF n3, THEN conjunct1]
  have 3: "getDefaultBranchName (scripted (\<lambda>_. ?o3)) repo []
      = (Inr ''origin/HEAD-fix'', [''git branch -r''])"
    by (simp add: trim_def is_white_space_def)
  from t4 [THEN conjunct1, THEN mp, OF s4, THEN conjunct1]
  have 4: "getDefaultBranchName (scripted (\<lambda>_. ?o4)) repo [] = (Inr ''main'', [''git branch -r''])" .
  from t5 [THEN conjunct1, THEN mp, OF s5, THEN conjunct1]
  have 5: "getDefaultBranchName (scripted (\<lambda>_. ?o5)) repo [] = (Inr ''main'', [''git branch -r''])" .
  from t6 [THEN conjunct1]
  have 6: "getDefaultBranchName (scripted (\<lambda>_. ?o6)) repo []
     = (Inl (Error ''Error executing command: git branch -r\<newline>fatal: not a git repository''),
        [''git branch -r''])"
    by (simp add: failed_def)
  from 1 2 3 4 5 6 show ?thesis by (intro conjI)
qed

subsection \<open>The command executor\<close>

text \<open>The line that \<open>find\<close> gives holds the marker, so it is not empty; the flags of
  \<^verbatim>\<open>reset\<close> and \<^verbatim>\<open>restore\<close> are not empty either.\<close>

lemma find_marker_truthy:
  "(case find (\<lambda>branch. includes_str branch ''origin/HEAD'') ls of
      Some line \<Rightarrow> if truthy line then f line else d
    | None \<Rightarrow> d)
   = (case find (\<lambda>branch. includes_str branch ''origin/HEAD'') ls of
        Some line \<Rightarrow> f line
      | None \<Rightarrow> d)"
proof (cases "find (\<lambda>branch. includes_str branch ''origin/HEAD'') ls")
  case None
  then show ?thesis by simp
next
  case (Some line)
  then have "includes_str line ''origin/HEAD''"
    by (auto simp add: find_Some_iff)
  then have "line \<noteq> []" by auto
  with Some show ?thesis by (simp add: truthy_def)
qed

lemma ResetFlag_str_truthy: "truthy (ResetFlag_str f)"
  by (cases f) (simp_all add: truthy_def)

lemma RestoreFlag_str_truthy: "truthy (RestoreFlag_str f)"
  by (cases f) (simp_all add: truthy_def)

text \<open>Every method of the class is its call of \<open>runCommand\<close>, on the command line it
  builds: alone, inside \<open>tryCommand\<close> for the probes, or awaited and followed by the
  return of the instance or of the parsed text.\<close>

lemma facade_calls:
  shows "getUserName exec this = runCommand exec this ''git config user.name''"
    and \<open>setUserName exec this name =
           runCommand exec this (''git config --global user.name "'' @ name @ ''" '')\<close>
    and "getUserEmail exec this = runCommand exec this ''git config user.email''"
    and \<open>setUserEmail exec this email =
           runCommand exec this (''git config --global user.email "'' @ email @ ''"'')\<close>
    and "hasNoUnstagedChanges exec this = tryCommand (runCommand exec this ''git diff --quiet'')"
    and "hasNoStagedChanges exec this =
           tryCommand (runCommand exec this ''git diff --cached --quiet'')"
    and "isWorkingDirClean exec this =
           await (tryCommand (runCommand exec this ''git diff --quiet'')) (\<lambda>unstagedClean.
           await (tryCommand (runCommand exec this ''git diff --cached --quiet'')) (\<lambda>stagedClean.
           resolve (unstagedClean \<and> stagedClean)))"
    and "hasUpstreamBranch exec this =
           tryCommand (runCommand exec this
             (''git rev-parse --abbrev-ref --symbolic-full-name '' @ [CHR 0x40] @ ''{u}''))"
    and "getCurrentBranchName exec this = runCommand exec this ''git rev-parse --abbrev-ref HEAD''"
    and "getDefaultBranchName exec this =
           await (runCommand exec this ''git branch -r'') (\<lambda>branches.
             resolve (case find (\<lambda>line. includes_str line ''origin/HEAD'')
                             (split_str branches CHR 0x0A) of
                        Some line \<Rightarrow> trim (replace line ''origin/HEAD -> origin/'' '''')
                      | None \<Rightarrow> ''main''))"
    and "add exec this path =
           runCommand exec this
             (''git add ''
              @ (case path of None \<Rightarrow> ''.'' | Some (One p) \<Rightarrow> p | Some (Many ps) \<Rightarrow> join ps '' '')
              @ '' '')"
    and "reset exec this hashValue rflag =
           runCommand exec this
             (join ([''git reset'']
                    @ (case rflag of None \<Rightarrow> [] | Some f \<Rightarrow> [ResetFlag_str f])
                    @ (if hashValue = [] then [] else [hashValue])) '' '')"
    and "restore exec this target sflag =
           runCommand exec this
             (''git restore''
              @ (case sflag of None \<Rightarrow> '''' | Some f \<Rightarrow> '' '' @ RestoreFlag_str f)
              @ '' ''
              @ (case target of
                   None \<Rightarrow> ''.'' | Some (One t) \<Rightarrow> t | Some (Many ts) \<Rightarrow> join ts '' ''))"
    and \<open>commit exec this message mflags =
           await (runCommand exec this
                    (''git commit -m "'' @ replace_all message (CHR 0x22) [CHR 0x5C, CHR 0x22]
                     @ ''"''
                     @ (case mflags of
                          None \<Rightarrow> ''''
                        | Some (One f) \<Rightarrow> '' '' @ CommitFlag_str f
                        | Some (Many fs) \<Rightarrow> '' '' @ join (map CommitFlag_str fs) '' '')))
             (\<lambda>_. resolve this)\<close>
    and "init exec this = await (runCommand exec this ''git init'') (\<lambda>_. resolve this)"
    and "clone exec this url dir =
           await (runCommand exec this
                    (''git clone '' @ url @ '' '' @ (case dir of None \<Rightarrow> '''' | Some d \<Rightarrow> d)))
             (\<lambda>_. resolve this)"
    and "push exec this remote br pflags =
           await (runCommand exec this
                    (''git push ''
                     @ (case (case remote of
                                Some (FlagArray fs) \<Rightarrow> fs
                              | _ \<Rightarrow> (case br of
                                         Some (FlagArray fs) \<Rightarrow> fs
                                       | _ \<Rightarrow> (case pflags of
                                                  None \<Rightarrow> []
                                                | Some (One f) \<Rightarrow> [f]
                                                | Some (Many fs) \<Rightarrow> fs))) of
                          [] \<Rightarrow> ''''
                        | f # fs \<Rightarrow> join (map PushFlag_str (f # fs)) '' '' @ '' '')
                     @ (case remote of
                          Some (FlagArray fs) \<Rightarrow> ''origin''
                        | Some (Name r) \<Rightarrow> r
                        | None \<Rightarrow> ''origin'')
                     @ (case remote of
                          Some (FlagArray fs) \<Rightarrow> ''''
                        | _ \<Rightarrow> (case br of
                                   Some (Name b) \<Rightarrow> if b = [] then '''' else '' '' @ b
                                 | _ \<Rightarrow> ''''))))
             (\<lambda>_. resolve this)"
    and "tag exec this v tflags =
           runCommand exec this
             (''git tag ''
              @ (case tflags of
                   None \<Rightarrow> ''''
                 | Some (One f) \<Rightarrow> TagFlag_str f @ '' ''
                 | Some (Many fs) \<Rightarrow> join (map TagFlag_str fs) '' '' @ '' '')
              @ v)"
    and "merge exec this branchName gflags =
           runCommand exec this
             (''git merge ''
              @ (case gflags of
                   None \<Rightarrow> ''''
                 | Some (One f) \<Rightarrow> MergeFlag_str f @ '' ''
                 | Some (Many fs) \<Rightarrow> join (map MergeFlag_str fs) '' '' @ '' '')
              @ branchName)"
    and "checkout exec this ctarget cflags =
           await (runCommand exec this
                    (''git checkout ''
                     @ (case cflags of
                          None \<Rightarrow> ''''
                        | Some (One f) \<Rightarrow> CheckoutFlag_str f @ '' ''
                        | Some (Many fs) \<Rightarrow> join (map CheckoutFlag_str fs) '' '' @ '' '')
                     @ ctarget))
             (\<lambda>_. resolve this)"
    and "branch exec this bname bflags =
           runCommand exec this
             (join ([''git branch'']
                    @ (case bflags of
                         None \<Rightarrow> []
                       | Some (One f) \<Rightarrow> [BranchFlag_str f]
                       | Some (Many fs) \<Rightarrow> map BranchFlag_str fs)
                    @ (case bname of None \<Rightarrow> [] | Some n \<Rightarrow> if n = [] then [] else [n])) '' '')"
proof -
  show "getUserName exec this = runCommand exec this ''git config user.name''"
    by (simp add: getUserName_def)
  show \<open>setUserName exec this name =
           runCommand exec this (''git config --global user.name "'' @ name @ ''" '')\<close>
    by (simp add: setUserName_def)
  show "getUserEmail exec this = runCommand exec this ''git config user.email''"
    by (simp add: getUserEmail_def)
  show \<open>setUserEmail exec this email =
           runCommand exec this (''git config --global user.email "'' @ email @ ''"'')\<close>
    by (simp add: setUserEmail_def)
  show "hasNoUnstagedChanges exec this = tryCommand (runCommand exec this ''git diff --quiet'')"
    by (simp add: hasNoUnstagedChanges_def)
  show "hasNoStagedChanges exec this =
           tryCommand (runCommand exec this ''git diff --cached --quiet'')"
    by (simp add: hasNoStagedChanges_def)
  show "isWorkingDirClean exec this =
           await (tryCommand (runCommand exec this ''git diff --quiet'')) (\<lambda>unstagedClean.
           await (tryCommand (runCommand exec this ''git diff --cached --quiet'')) (\<lambda>stagedClean.
           resolve (unstagedClean \<and> stagedClean)))"
    by (simp add: isWorkingDirClean_def hasNoUnstagedChanges_def hasNoStagedChanges_def)
  show "hasUpstreamBranch exec this =
           tryCommand (runCommand exec this
             (''git rev-parse --abbrev-ref --symbolic-full-name '' @ [CHR 0x40] @ ''{u}''))"
    by (simp add: hasUpstreamBranch_def)
  show "getCurrentBranchName exec this = runCommand exec this ''git rev-parse --abbrev-ref HEAD''"
    by (simp add: getCurrentBranchName_def)
  show "getDefaultBranchName exec this =
           await (runCommand exec this ''git branch -r'') (\<lambda>branches.
             resolve (case find (\<lambda>line. includes_str line ''origin/HEAD'')
                             (split_str branches CHR 0x0A) of
                        Some line \<Rightarrow> trim (replace line ''origin/HEAD -> origin/'' '''')
                      | None \<Rightarrow> ''main''))"
    by (simp add: getDefaultBranchName_def find_marker_truthy)
  show "add exec this path =
           runCommand exec this
             (''git add ''
              @ (case path of None \<Rightarrow> ''.'' | Some (One p) \<Rightarrow> p | Some (Many ps) \<Rightarrow> join ps '' '')
              @ '' '')"
    by (simp add: add_def split: option.splits one_or_many.splits)
  show "reset exec this hashValue rflag =
           runCommand exec this
             (join ([''git reset'']
                    @ (case rflag of None \<Rightarrow> [] | Some f \<Rightarrow> [ResetFlag_str f])
                    @ (if hashValue = [] then [] else [hashValue])) '' '')"
    using ResetFlag_str_truthy
    by (simp add: reset_def truthy_def split: option.splits)
  show "restore exec this target sflag =
           runCommand exec this
             (''git restore''
              @ (case sflag of None \<Rightarrow> '''' | Some f \<Rightarrow> '' '' @ RestoreFlag_str f)
              @ '' ''
              @ (case target of
                   None \<Rightarrow> ''.'' | Some (One t) \<Rightarrow> t | Some (Many ts) \<Rightarrow> join ts '' ''))"
    by (simp add: restore_def RestoreFlag_str_truthy split: option.splits one_or_many.splits)
  show \<open>commit exec this message mflags =
           await (runCommand exec this
                    (''git commit -m "'' @ replace_all message (CHR 0x22) [CHR 0x5C, CHR 0x22]
                     @ ''"''
                     @ (case mflags of
                          None \<Rightarrow> ''''
                        | Some (One f) \<Rightarrow> '' '' @ CommitFlag_str f
                        | Some (Many fs) \<Rightarrow> '' '' @ join (map CommitFlag_str fs) '' '')))
             (\<lambda>_. resolve this)\<close>
    by (simp add: commit_def CommitFlag_str_truthy split: option.splits one_or_many.splits)
  show "init exec this = await (runCommand exec this ''git init'') (\<lambda>_. resolve this)"
    by (simp add: init_def)
  show "clone exec this url dir =
           await (runCommand exec this
                    (''git clone '' @ url @ '' '' @ (case dir of None \<Rightarrow> '''' | Some d \<Rightarrow> d)))
             (\<lambda>_. resolve this)"
    by (simp add: clone_def)
  show "push exec this remote br pflags =
           await (runCommand exec this
                    (''git push ''
                     @ (case (case remote of
                                Some (FlagArray fs) \<Rightarrow> fs
                              | _ \<Rightarrow> (case br of
                                         Some (FlagArray fs) \<Rightarrow> fs
                                       | _ \<Rightarrow> (case pflags of
                                                  None \<Rightarrow> []
                                                | Some (One f) \<Rightarrow> [f]
                                                | Some (Many fs) \<Rightarrow> fs))) of
                          [] \<Rightarrow> ''''
                        | f # fs \<Rightarrow> join (map PushFlag_str (f # fs)) '' '' @ '' '')
                     @ (case remote of
                          Some (FlagArray fs) \<Rightarrow> ''origin''
                        | Some (Name r) \<Rightarrow> r
                        | None \<Rightarrow> ''origin'')
                     @ (case remote of
                          Some (FlagArray fs) \<Rightarrow> ''''
                        | _ \<Rightarrow> (case br of
                                   Some (Name b) \<Rightarrow> if b = [] then '''' else '' '' @ b
                                 | _ \<Rightarrow> ''''))))
             (\<lambda>_. resolve this)"
    by (simp add: push_def truthy_def PushFlag_str_truthy [unfolded truthy_def]
        split: option.splits push_arg.splits one_or_many.splits list.splits)
  show "tag exec this v tflags =
           runCommand exec this
             (''git tag ''
              @ (case tflags of
                   None \<Rightarrow> ''''
                 | Some (One f) \<Rightarrow> TagFlag_str f @ '' ''
                 | Some (Many fs) \<Rightarrow> join (map TagFlag_str fs) '' '' @ '' '')
              @ v)"
    by (simp add: tag_def TagFlag_str_truthy split: option.splits one_or_many.splits)
  show "merge exec this branchName gflags =
           runCommand exec this
             (''git merge ''
              @ (case gflags of
                   None \<Rightarrow> ''''
                 | Some (One f) \<Rightarrow> MergeFlag_str f @ '' ''
                 | Some (Many fs) \<Rightarrow> join (map MergeFlag_str fs) '' '' @ '' '')
              @ branchName)"
    by (simp add: merge_def MergeFlag_str_truthy split: option.splits one_or_many.splits)
  show "checkout exec this ctarget cflags =
           await (runCommand exec this
                    (''git checkout ''
                     @ (case cflags of
                          None \<Rightarrow> ''''
                        | Some (One f) \<Rightarrow> CheckoutFlag_str f @ '' ''
                        | Some (Many fs) \<Rightarrow> join (map CheckoutFlag_str fs) '' '' @ '' '')
                     @ ctarget))
             (\<lambda>_. resolve this)"
    by (simp add: checkout_def CheckoutFlag_str_truthy split: option.splits one_or_many.splits)
  show "branch exec this bname bflags =
           runCommand exec this
             (join ([''git branch'']
                    @ (case bflags of
                         None \<Rightarrow> []
                       | Some (One f) \<Rightarrow> [BranchFlag_str f]
                       | Some (Many fs) \<Rightarrow> map BranchFlag_str fs)
                    @ (case bname of None \<Rightarrow> [] | Some n \<Rightarrow> if n = [] then [] else [n])) '' '')"
    using filter_truthy_flags [of BranchFlag_str, OF BranchFlag_str_truthy]
    by (simp add: branch_def truthy_def BranchFlag_str_truthy [unfolded truthy_def]
        split: option.splits one_or_many.splits)
qed

lemma facade_index_calls:
  shows "getUserName_index exec this = runCommand_index exec this ''git config user.name''"
    and "getUserEmail_index exec this = runCommand_index exec this ''git config user.email''"
    and "hasNoUnstagedChanges_index exec this =
           tryCommand (runCommand_index exec this ''git diff --quiet'')"
    and "hasNoStagedChanges_index exec this =
           tryCommand (runCommand_index exec this ''git diff --cached --quiet'')"
    and "isWorkingDirClean_index exec this =
           await (tryCommand (runCommand_index exec this ''git diff --quiet'')) (\<lambda>unstagedClean.
           await (tryCommand (runCommand_index exec this ''git diff --cached --quiet''))
             (\<lambda>stagedClean. resolve (unstagedClean \<and> stagedClean)))"
    and "hasUpstreamBranch_index exec this =
           tryCommand (runCommand_index exec this
             (''git rev-parse --abbrev-ref --symbolic-full-name '' @ [CHR 0x40] @ ''{u}''))"
    and "getCurrentBranchName_index exec this =
           runCommand_index exec this ''git rev-parse --abbrev-ref HEAD''"
    and "getDefaultBranchName_index exec this =
           await (runCommand_index exec this ''git branch -r'') (\<lambda>branches.
             resolve (case find (\<lambda>line. includes_str line ''origin/HEAD'')
                             (split_str branches CHR 0x0A) of
                        Some line \<Rightarrow> trim (replace line ''origin/HEAD -> origin/'' '''')
                      | None \<Rightarrow> ''main''))"
  by (simp_all add: getUserName_index_def getUserEmail_index_def
      hasNoUnstagedChanges_index_def hasNoStagedChanges_index_def isWorkingDirClean_index_def
      hasUpstreamBranch_index_def getCurrentBranchName_index_def getDefaultBranchName_index_def
      find_marker_truthy)

text \<open>The message of a rejection holds the command line and the text of standard error.\<close>

lemma includes_str_append: "includes_str (ps @ pat @ ss) pat"
  by (simp add: includes_str_sublist)

lemma error_message_includes:
  "includes_str (''Error executing command: '' @ cmd @ ''\<newline>'' @ err) cmd
   \<and> includes_str (''Error executing command: '' @ cmd @ ''\<newline>'' @ err) err"
proof
  show "includes_str (''Error executing command: '' @ cmd @ ''\<newline>'' @ err) cmd"
    by (rule includes_str_append)
  have "includes_str ((''Error executing command: '' @ cmd @ ''\<newline>'') @ err @ []) err"
    by (rule includes_str_append)
  then show "includes_str (''Error executing command: '' @ cmd @ ''\<newline>'' @ err) err"
    by simp
qed

text \<open>
  Claim C2. For every command line, \<^verbatim>\<open>runCommand\<close> is fulfilled, when the subprocess
  exits with status zero, with its standard output without the white space at both
  ends, the white space inside kept; and it is rejected, when the subprocess exits with
  another status or cannot be spawned, with a message that holds the command line and
  the text of standard error. Every method of the class runs its subprocess through
  this function: each of the twenty-one methods is equal to the call of \<^verbatim>\<open>runCommand\<close> on
  its command line (for \<^verbatim>\<open>isWorkingDirClean\<close>, to the two calls in turn), wrapped as the
  method wraps it. The same holds of the eight methods of the class in \<^verbatim>\<open>src/index.ts\<close>,
  whose \<^verbatim>\<open>runCommand\<close> rejects with the message itself.
\<close>

theorem runCommand_contract:
  \<open>(exec cmd (cwd this) w = (out, w') \<and> error out = None \<longrightarrow>
      runCommand exec this cmd w = (Inr (trim (stdout out)), w')
      \<and> runCommand_index exec this cmd w = (Inr (trim (stdout out)), w')
      \<and> (\<exists>l t. stdout out = l @ trim (stdout out) @ t
                \<and> list_all is_white_space l \<and> list_all is_white_space t)
      \<and> (trim (stdout out) \<noteq> [] \<longrightarrow>
            \<not> is_white_space (hd (trim (stdout out)))
            \<and> \<not> is_white_space (last (trim (stdout out)))))
   \<and> (exec cmd (cwd this) w = (out, w') \<and> error out \<noteq> None \<longrightarrow>
      (\<exists>msg. runCommand exec this cmd w = (Inl (Error msg), w')
             \<and> runCommand_index exec this cmd w = (Inl (Thrown msg), w')
             \<and> msg = ''Error executing command: '' @ cmd @ ''\<newline>'' @ stderr out
             \<and> includes_str msg cmd \<and> includes_str msg (stderr out)))
   \<and> (getUserName exec this = runCommand exec this ''git config user.name'')
   \<and> (setUserName exec this name =
           runCommand exec this (''git config --global user.name "'' @ name @ ''" ''))
   \<and> (getUserEmail exec this = runCommand exec this ''git config user.email'')
   \<and> (setUserEmail exec this email =
           runCommand exec this (''git config --global user.email "'' @ email @ ''"''))
   \<and> (hasNoUnstagedChanges exec this = tryCommand (runCommand exec this ''git diff --quiet''))
   \<and> (hasNoStagedChanges exec this =
           tryCommand (runCommand exec this ''git diff --cached --quiet''))
   \<and> (isWorkingDirClean exec this =
           await (tryCommand (runCommand exec this ''git diff --quiet'')) (\<lambda>unstagedClean.
           await (tryCommand (runCommand exec this ''git diff --cached --quiet'')) (\<lambda>stagedClean.
           resolve (unstagedClean \<and> stagedClean))))
   \<and> (hasUpstreamBranch exec this =
           tryCommand (runCommand exec this
             (''git rev-parse --abbrev-ref --symbolic-full-name '' @ [CHR 0x40] @ ''{u}'')))
   \<and> (getCurrentBranchName exec this = runCommand exec this ''git rev-parse --abbrev-ref HEAD'')
   \<and> (getDefaultBranchName exec this =
           await (runCommand exec this ''git branch -r'') (\<lambda>branches.
             resolve (case find (\<lambda>line. includes_str line ''origin/HEAD'')
                             (split_str branches CHR 0x0A) of
                        Some line \<Rightarrow> trim (replace line ''origin/HEAD -> origin/'' '''')
                      | None \<Rightarrow> ''main'')))
   \<and> (add exec this path =
           runCommand exec this
             (''git add ''
              @ (case path of None \<Rightarrow> ''.'' | Some (One p) \<Rightarrow> p | Some (Many ps) \<Rightarrow> join ps '' '')
              @ '' ''))
   \<and> (reset exec this hashValue rflag =
           runCommand exec this
             (join ([''git reset'']
                    @ (case rflag of None \<Rightarrow> [] | Some f \<Rightarrow> [ResetFlag_str f])
                    @ (if hashValue = [] then [] else [hashValue])) '' ''))
   \<and> (restore exec this target sflag =
           runCommand exec this
             (''git restore''
              @ (case sflag of None \<Rightarrow> '''' | Some f \<Rightarrow> '' '' @ RestoreFlag_str f)
              @ '' ''
              @ (case target of
                   None \<Rightarrow> ''.'' | Some (One t) \<Rightarrow> t | Some (Many ts) \<Rightarrow> join ts '' '')))
   \<and> (commit exec this message mflags =
           await (runCommand exec this
                    (''git commit -m "'' @ replace_all message (CHR 0x22) [CHR 0x5C, CHR 0x22]
                     @ ''"''
                     @ (case mflags of
                          None \<Rightarrow> ''''
                        | Some (One f) \<Rightarrow> '' '' @ CommitFlag_str f
                        | Some (Many fs) \<Rightarrow> '' '' @ join (map CommitFlag_str fs) '' '')))
             (\<lambda>_. resolve this))
   \<and> (init exec this = await (runCommand exec this ''git init'') (\<lambda>_. resolve this))
   \<and> (clone exec this url dir =
           await (runCommand exec this
                    (''git clone '' @ url @ '' '' @ (case dir of None \<Rightarrow> '''' | Some d \<Rightarrow> d)))
             (\<lambda>_. resolve this))
   \<and> (push exec this remote br pflags =
           await (runCommand exec this
                    (''git push ''
                     @ (case (case remote of
                                Some (FlagArray fs) \<Rightarrow> fs
                              | _ \<Rightarrow> (case br of
                                         Some (FlagArray fs) \<Rightarrow> fs
                                       | _ \<Rightarrow> (case pflags of
                                                  None \<Rightarrow> []
                                                | Some (One f) \<Rightarrow> [f]
                                                | Some (Many fs) \<Rightarrow> fs))) of
                          [] \<Rightarrow> ''''
                        | f # fs \<Rightarrow> join (map PushFlag_str (f # fs)) '' '' @ '' '')
                     @ (case remote of
                          Some (FlagArray fs) \<Rightarrow> ''origin''
                        | Some (Name r) \<Rightarrow> r
                        | None \<Rightarrow> ''origin'')
                     @ (case remote of
                          Some (FlagArray fs) \<Rightarrow> ''''
                        | _ \<Rightarrow> (case br of
                                   Some (Name b) \<Rightarrow> if b = [] then '''' else '' '' @ b
                                 | _ \<Rightarrow> ''''))))
             (\<lambda>_. resolve this))
   \<and> (tag exec this v tflags =
           runCommand exec this
             (''git tag ''
              @ (case tflags of
                   None \<Rightarrow> ''''
                 | Some (One f) \<Rightarrow> TagFlag_str f @ '' ''
                 | Some (Many fs) \<Rightarrow> join (map TagFlag_str fs) '' '' @ '' '')
              @ v))
   \<and> (merge exec this branchName gflags =
           runCommand exec this
             (''git merge ''
              @ (case gflags of
                   None \<Rightarrow> ''''
                 | Some (One f) \<Rightarrow> MergeFlag_str f @ '' ''
                 | Some (Many fs) \<Rightarrow> join (map MergeFlag_str fs) '' '' @ '' '')
              @ branchName))
   \<and> (checkout exec this ctarget cflags =
           await (runCommand exec this
                    (''git checkout ''
                     @ (case cflags of
                          None \<Rightarrow> ''''
                        | Some (One f) \<Rightarrow> CheckoutFlag_str f @ '' ''
                        | Some (Many fs) \<Rightarrow> join (map CheckoutFlag_str fs) '' '' @ '' '')
                     @ ctarget))
             (\<lambda>_. resolve this))
   \<and> (branch exec this bname bflags =
           runCommand exec this
             (join ([''git branch'']
                    @ (case bflags of
                         None \<Rightarrow> []
                       | Some (One f) \<Rightarrow> [BranchFlag_str f]
                       | Some (Many fs) \<Rightarrow> map BranchFlag_str fs)
                    @ (case bname of None \<Rightarrow> [] | Some n \<Rightarrow> if n = [] then [] else [n])) '' ''))
   \<and> (getUserName_index exec this = runCommand_index exec this ''git config user.name'')
   \<and> (getUserEmail_index exec this = runCommand_index exec this ''git config user.email'')
   \<and> (hasNoUnstagedChanges_index exec this =
           tryCommand (runCommand_index exec this ''git diff --quiet''))
   \<and> (hasNoStagedChanges_index exec this =
           tryCommand (runCommand_index exec this ''git diff --cached --quiet''))
   \<and> (isWorkingDirClean_index exec this =
           await (tryCommand (runCommand_index exec this ''git diff --quiet'')) (\<lambda>unstagedClean.
           await (tryCommand (runCommand_index exec this ''git diff --cached --quiet''))
             (\<lambda>stagedClean. resolve (unstagedClean \<and> stagedClean))))
   \<and> (hasUpstreamBranch_index exec this =
           tryCommand (runCommand_index exec this
             (''git rev-parse --abbrev-ref --symbolic-full-name '' @ [CHR 0x40] @ ''{u}'')))
   \<and> (getCurrentBranchName_index exec this =
           runCommand_index exec this ''git rev-parse --abbrev-ref HEAD'')
   \<and> (getDefaultBranchName_index exec this =
           await (runCommand_index exec this ''git branch -r'') (\<lambda>branches.
             resolve (case find (\<lambda>line. includes_str line ''origin/HEAD'')
                             (split_str branches CHR 0x0A) of
                        Some line \<Rightarrow> trim (replace line ''origin/HEAD -> origin/'' '''')
                      | None \<Rightarrow> ''main'')))\<close>
proof -
  have succ: "exec cmd (cwd this) w = (out, w') \<and> error out = None \<longrightarrow>
      runCommand exec this cmd w = (Inr (trim (stdout out)), w')
      \<and> runCommand_index exec this cmd w = (Inr (trim (stdout out)), w')
      \<and> (\<exists>l t. stdout out = l @ trim (stdout out) @ t
                \<and> list_all is_white_space l \<and> list_all is_white_space t)
      \<and> (trim (stdout out) \<noteq> [] \<longrightarrow>
            \<not> is_white_space (hd (trim (stdout out)))
            \<and> \<not> is_white_space (last (trim (stdout out))))"
    using trim_white_space_around [of "stdout out"] trim_hd [of "stdout out"]
      trim_last [of "stdout out"]
    by (simp add: runCommand_exec runCommand_index_exec)
  have fail: "exec cmd (cwd this) w = (out, w') \<and> error out \<noteq> None \<longrightarrow>
      (\<exists>msg. runCommand exec this cmd w = (Inl (Error msg), w')
             \<and> runCommand_index exec this cmd w = (Inl (Thrown msg), w')
             \<and> msg = ''Error executing command: '' @ cmd @ ''\<newline>'' @ stderr out
             \<and> includes_str msg cmd \<and> includes_str msg (stderr out))"
    using error_message_includes [of cmd "stderr out"]
    by (simp add: runCommand_exec runCommand_index_exec)
  from succ fail facade_calls [of exec this] facade_index_calls [of exec this]
  show ?thesis by (intro conjI)
qed

text \<open>Output with white space at both ends and inside; an exit status other than zero;
  a subprocess that cannot be spawned; and methods on the scripted runner, whose record
  shows the command line that reached it.\<close>

theorem runCommand_contract_witness:
  "runCommand (scripted (\<lambda>_. ok ''  a  b \<newline>'')) repo ''git x'' [] = (Inr ''a  b'', [''git x''])
   \<and> runCommand_index (scripted (\<lambda>_. ok ''  a  b \<newline>'')) repo ''git x'' []
       = (Inr ''a  b'', [''git x''])
   \<and> runCommand (scripted (\<lambda>_. failed 128 ''fatal: bad'')) repo ''git x'' []
       = (Inl (Error ''Error executing command: git x\<newline>fatal: bad''), [''git x''])
   \<and> runCommand_index (scripted (\<lambda>_. spawn_failed ''sh: git: not found'')) repo ''git x'' []
       = (Inl (Thrown ''Error executing command: git x\<newline>sh: git: not found''), [''git x''])
   \<and> getUserName (scripted ok) repo [] = (Inr ''git config user.name'', [''git config user.name''])
   \<and> getUserEmail (scripted ok) repo []
       = (Inr ''git config user.email'', [''git config user.email''])
   \<and> getCurrentBranchName (scripted ok) repo []
       = (Inr ''git rev-parse --abbrev-ref HEAD'', [''git rev-parse --abbrev-ref HEAD''])
   \<and> reset (scripted ok) repo ''abc1234'' (Some ResetHard) []
       = (Inr ''git reset --hard abc1234'', [''git reset --hard abc1234''])
   \<and> reset (scripted ok) repo ''abc1234'' None []
       = (Inr ''git reset abc1234'', [''git reset abc1234''])
   \<and> restore (scripted ok) repo (Some (Many [''src/'', ''docs/''])) (Some (RestoreSource ''HEAD~1'')) []
       = (Inr ''git restore --source=HEAD~1 src/ docs/'', [''git restore --source=HEAD~1 src/ docs/''])
   \<and> restore (scripted ok) repo None None [] = (Inr ''git restore .'', [''git restore .''])
   \<and> getUserName (scripted (\<lambda>_. failed 1 '''')) repo []
       = (Inl (Error ''Error executing command: git config user.name\<newline>''),
          [''git config user.name''])
   \<and> getUserName_index (scripted (\<lambda>_. failed 1 '''')) repo []
       = (Inl (Thrown ''Error executing command: git config user.name\<newline>''),
          [''git config user.name''])
   \<and> getUserEmail_index (scripted ok) repo []
       = (Inr ''git config user.email'', [''git config user.email''])
   \<and> getCurrentBranchName_index (scripted ok) repo []
       = (Inr ''git rev-parse --abbrev-ref HEAD'', [''git rev-parse --abbrev-ref HEAD''])"
proof -
  have s: "scripted (\<lambda>_. ok ''  a  b \<newline>'') ''git x'' (cwd repo) [] = (ok ''  a  b \<newline>'', [''git x''])
      \<and> error (ok ''  a  b \<newline>'') = None"
    by (simp add: scripted_def ok_def)
  have f: "scripted (\<lambda>_. failed 128 ''fatal: bad'') ''git x'' (cwd repo) []
        = (failed 128 ''fatal: bad'', [''git x''])
      \<and> error (failed 128 ''fatal: bad'') \<noteq> None"
    by (simp add: scripted_def failed_def)
  have g: "scripted (\<lambda>_. spawn_failed ''sh: git: not found'') ''git x'' (cwd repo) []
        = (spawn_failed ''sh: git: not found'', [''git x''])
      \<and> error (spawn_failed ''sh: git: not found'') \<noteq> None"
    by (simp add: scripted_def spawn_failed_def)
  from runCommand_contract [where exec = "scripted (\<lambda>_. ok ''  a  b \<newline>'')" and this = repo
      and w = "[]", THEN conjunct1, rule_format, OF s]
  have 1: "runCommand (scripted (\<lambda>_. ok ''  a  b \<newline>'')) repo ''git x'' [] = (Inr ''a  b'', [''git x''])
     \<and> runCommand_index (scripted (\<lambda>_. ok ''  a  b \<newline>'')) repo ''git x'' []
       = (Inr ''a  b'', [''git x''])"
    by (simp add: ok_def trim_def is_white_space_def)
  from runCommand_contract [where exec = "scripted (\<lambda>_. failed 128 ''fatal: bad'')" and this = repo
      and w = "[]", THEN conjunct2, THEN conjunct1, rule_format, OF f]
  have 2: "runCommand (scripted (\<lambda>_. failed 128 ''fatal: bad'')) repo ''git x'' []
       = (Inl (Error ''Error executing command: git x\<newline>fatal: bad''), [''git x''])"
    by (auto simp add: failed_def)
  from runCommand_contract [where exec = "scripted (\<lambda>_. spawn_failed ''sh: git: not found'')"
      and this = repo and w = "[]", THEN conjunct2, THEN conjunct1, rule_format, OF g]
  have 3: "runCommand_index (scripted (\<lambda>_. spawn_failed ''sh: git: not found'')) repo ''git x'' []
       = (Inl (Thrown ''Error executing command: git x\<newline>sh: git: not found''), [''git x''])"
    by (auto simp add: spawn_failed_def)
  note calls = runCommand_contract [where exec = "scripted ok" and this = repo
      and hashValue = "''abc1234''" and rflag = "Some ResetHard"
      and target = "Some (Many [''src/'', ''docs/''])" and sflag = "Some (RestoreSource ''HEAD~1'')",
      THEN conjunct2, THEN conjunct2]
  note calls' = runCommand_contract [where exec = "scripted ok" and this = repo
      and hashValue = "''abc1234''" and rflag = None and target = None and sflag = None,
      THEN conjunct2, THEN conjunct2]
  note calls_f = runCommand_contract [where exec = "scripted (\<lambda>_. failed 1 '''')" and this = repo,
      THEN conjunct2, THEN conjunct2]
  have 4: "getUserName (scripted ok) repo [] = (Inr ''git config user.name'', [''git config user.name''])
   \<and> getUserEmail (scripted ok) repo []
       = (Inr ''git config user.email'', [''git config user.email''])
   \<and> getCurrentBranchName (scripted ok) repo []
       = (Inr ''git rev-parse --abbrev-ref HEAD'', [''git rev-parse --abbrev-ref HEAD''])
   \<and> reset (scripted ok) repo ''abc1234'' (Some ResetHard) []
       = (Inr ''git reset --hard abc1234'', [''git reset --hard abc1234''])
   \<and> restore (scripted ok) repo (Some (Many [''src/'', ''docs/''])) (Some (RestoreSource ''HEAD~1'')) []
       = (Inr ''git restore --source=HEAD~1 src/ docs/'', [''git restore --source=HEAD~1 src/ docs/''])
   \<and> getUserEmail_index (scripted ok) repo []
       = (Inr ''git config user.email'', [''git config user.email''])
   \<and> getCurrentBranchName_index (scripted ok) repo []
       = (Inr ''git rev-parse --abbrev-ref HEAD'', [''git rev-parse --abbrev-ref HEAD''])"
    using calls by (simp add: eval_defs)
  have 5: "reset (scripted ok) repo ''abc1234'' None []
       = (Inr ''git reset abc1234'', [''git reset abc1234''])
   \<and> restore (scripted ok) repo None None [] = (Inr ''git restore .'', [''git restore .''])"
    using calls' by (simp add: eval_defs)
  have 6: "getUserName (scripted (\<lambda>_. failed 1 '''')) repo []
       = (Inl (Error ''Error executing command: git config user.name\<newline>''),
          [''git config user.name''])
   \<and> getUserName_index (scripted (\<lambda>_. failed 1 '''')) repo []
       = (Inl (Thrown ''Error executing command: git config user.name\<newline>''),
          [''git config user.name''])"
    using calls_f by (simp add: eval_defs)
  from 1 2 3 4 5 6 show ?thesis by simp
qed

end
